theory Spec2Isabelle
  imports Complex_Main "HOL-Library.Sublist" "HOL-Library.Log_Nat"
begin

section \<open>Text as the script prints it\<close>

text \<open>
  JavaScript strings are modelled as \<open>string\<close>. The helpers below are the string
  operations \<open>index.js\<close> uses: template substitution of a number, \<open>slice\<close>,
  \<open>includes\<close> and \<open>toLowerCase\<close> (on the ASCII text of an address).
\<close>

fun showNat :: "nat \<Rightarrow> string" where
  "showNat n =
     (if n < 10 then [''0123456789'' ! n]
      else showNat (n div 10) @ [''0123456789'' ! (n mod 10)])"

declare showNat.simps [simp del]

definition showInt :: "int \<Rightarrow> string" where
  "showInt i = (if i < 0 then ''-'' @ showNat (nat (- i)) else showNat (nat i))"

definition includesText :: "string \<Rightarrow> string \<Rightarrow> bool" where
  \<comment> \<open>\<open>s.includes(sub)\<close>\<close>
  "includesText s sub = sublist sub s"

definition toLowerCase :: "string \<Rightarrow> string" where
  "toLowerCase s =
     map (\<lambda>c. case map_of (zip ''ABCDEFGHIJKLMNOPQRSTUVWXYZ'' ''abcdefghijklmnopqrstuvwxyz'') c of
                 None \<Rightarrow> c | Some l \<Rightarrow> l) s"

definition getShortAddress :: "string \<Rightarrow> string" where
  \<comment> \<open>\<open>address ? address.slice(0, 6) + "..." + address.slice(-4) : "N/A"\<close>\<close>
  "getShortAddress address =
     (if address \<noteq> [] then take 6 address @ ''...'' @ drop (length address - 4) address
      else ''N/A'')"

definition getShortHash :: "string \<Rightarrow> string" where
  "getShortHash hash = take 6 hash @ ''...'' @ drop (length hash - 4) hash"

section \<open>Constants of the script\<close>

definition HOLESKY_CHAIN_ID :: nat where
  "HOLESKY_CHAIN_ID = 17000"

definition STAKE_CONTRACT_ADDRESS :: string where
  "STAKE_CONTRACT_ADDRESS = ''0x0c6A085e9d17A51DEA2A7e954ACcAb1429213B75''"

definition UNSTAKE_CONTRACT_ADDRESS :: string where
  "UNSTAKE_CONTRACT_ADDRESS = ''0x3Cc99498dea7a164C9d6D02C7710FF63f36A60ed''"

definition CLAIM_CONTRACT_ADDRESS :: string where
  "CLAIM_CONTRACT_ADDRESS = ''0x3Cc99498dea7a164C9d6D02C7710FF63f36A60ed''"

definition WETH_ADDRESS :: string where
  "WETH_ADDRESS = ''0x94373a4919B3240D86eA41593D5eBa789FEF3848''"

definition EXETH_ADDRESS :: string where
  "EXETH_ADDRESS = ''0xDD1ec7e2c5408aB7199302d481a1b77FdA0267A3''"

definition isDebug :: bool where
  "isDebug = False"

definition oneGwei :: nat where
  \<comment> \<open>\<open>ethers.parseUnits("1", "gwei")\<close>\<close>
  "oneGwei = 1000000000"

section \<open>Numbers\<close>

text \<open>
  A JavaScript number is a double. The finite doubles are modelled as the rationals
  they denote: \<open>toDouble\<close> rounds a rational to the nearest double, ties to the even
  significand (53 bits, the unit in the last place no smaller than \<open>2^-1074\<close>), as the
  reading of a numeric literal and every arithmetic operation do. Magnitudes from
  \<open>2^1024\<close> on, where the script has \<open>Infinity\<close>, and \<open>NaN\<close> are outside the model.
  \<open>showNumber\<close> is \<open>Number.prototype.toString()\<close>, which a template literal applies: the
  shortest decimal digits that read back as the same double.
\<close>

definition pow2 :: "int \<Rightarrow> rat" where
  "pow2 k = (if 0 \<le> k then 2 ^ nat k else 1 / 2 ^ nat (- k))"

definition pow10 :: "int \<Rightarrow> rat" where
  "pow10 k = (if 0 \<le> k then 10 ^ nat k else 1 / 10 ^ nat (- k))"

definition floorLog2 :: "rat \<Rightarrow> int" where
  \<comment> \<open>for \<open>0 < a\<close>: the \<open>e\<close> with \<open>2^e \<le> a < 2^(e+1)\<close>\<close>
  "floorLog2 a =
     (let (p, q) = quotient_of a;
          d = bitlen p - bitlen q
      in if pow2 d \<le> a then d else d - 1)"

definition roundHalfEven :: "rat \<Rightarrow> int" where
  "roundHalfEven x =
     (let f = \<lfloor>x\<rfloor>; r = x - of_int f
      in if r < 1 / 2 then f else if 1 / 2 < r then f + 1 else if even f then f else f + 1)"

definition toDouble :: "rat \<Rightarrow> rat" where
  "toDouble x =
     (if x = 0 then 0
      else let a = \<bar>x\<bar>;
               ulp = pow2 (max (floorLog2 a - 52) (- 1074));
               significand = roundHalfEven (a / ulp)
           in (if x < 0 then - 1 else 1) * of_int significand * ulp)"

function digitCount :: "int \<Rightarrow> nat" where
  \<comment> \<open>the number of decimal digits of a positive integer\<close>
  "digitCount i = (if i \<le> 0 then 0 else Suc (digitCount (i div 10)))"
  by pat_completeness auto

termination
  by (relation "measure nat") auto

declare digitCount.simps [simp del]

function showDigits :: "int \<Rightarrow> string" where
  \<comment> \<open>the decimal digits of an integer that is not negative\<close>
  "showDigits i =
     (if i < 10 then [char_of (48 + i)] else showDigits (i div 10) @ [char_of (48 + i mod 10)])"
  by pat_completeness auto

termination
  by (relation "measure nat") auto

declare showDigits.simps [simp del]

primrec leadingZeros :: "nat \<Rightarrow> rat \<Rightarrow> nat" where
  "leadingZeros 0 a = 0"
| "leadingZeros (Suc fuel) a = (if 1 \<le> a * 10 then 0 else Suc (leadingZeros fuel (a * 10)))"

definition decimalExponent :: "rat \<Rightarrow> int" where
  \<comment> \<open>for \<open>0 < a\<close>: the \<open>n\<close> with \<open>10^(n-1) \<le> a < 10^n\<close>\<close>
  "decimalExponent a =
     (if 1 \<le> a then int (digitCount \<lfloor>a\<rfloor>)
      else - int (leadingZeros (nat (bitlen (snd (quotient_of a)))) a))"

definition digitsAt :: "rat \<Rightarrow> int \<Rightarrow> nat \<Rightarrow> (int \<times> int) option" where
  \<comment> \<open>the \<open>k\<close> digits \<open>s\<close> with \<open>s * 10^(n-k)\<close> reading back as the double \<open>a\<close>, if there are any:
      of two candidates the nearer one, and the even one when they are equally near\<close>
  "digitsAt a n k =
     (let scale = pow10 (n - int k);
          t = a / scale;
          reads = (\<lambda>s. toDouble (of_int s * scale) = a);
          lo = \<lfloor>t\<rfloor>; hi = \<lceil>t\<rceil>;
          pick = (if reads lo \<and> reads hi
                  then (if t - of_int lo < of_int hi - t then Some lo
                        else if of_int hi - t < t - of_int lo then Some hi
                        else if even lo then Some lo else Some hi)
                  else if reads lo then Some lo
                  else if reads hi then Some hi
                  else None)
      in case pick of
           None \<Rightarrow> None
         | Some s \<Rightarrow> if s = 10 ^ k then Some (10 ^ (k - 1), n + 1) else Some (s, n))"

primrec shortestDigits :: "nat \<Rightarrow> nat \<Rightarrow> rat \<Rightarrow> int \<Rightarrow> int \<times> int" where
  "shortestDigits 0 k a n = (roundHalfEven (a / pow10 (n - int k)), n)"
| "shortestDigits (Suc fuel) k a n =
     (case digitsAt a n k of
        Some found \<Rightarrow> found
      | None \<Rightarrow> shortestDigits fuel (Suc k) a n)"

definition showNumber :: "rat \<Rightarrow> string" where
  "showNumber x =
     (if x = 0 then ''0''
      else
        let a = \<bar>x\<bar>;
            (s, n) = shortestDigits 16 1 a (decimalExponent a);
            ds = showDigits s;
            k = int (length ds);
            body =
              (if k \<le> n \<and> n \<le> 21 then ds @ replicate (nat (n - k)) (CHR ''0'')
               else if 0 < n \<and> n \<le> 21 then take (nat n) ds @ ''.'' @ drop (nat n) ds
               else if - 6 < n \<and> n \<le> 0 then ''0.'' @ replicate (nat (- n)) (CHR ''0'') @ ds
               else
                 (if k = 1 then ds else take 1 ds @ ''.'' @ drop 1 ds) @ ''e'' @
                 (if n - 1 < 0 then ''-'' else ''+'') @ showDigits \<bar>n - 1\<bar>)
        in (if x < 0 then ''-'' else []) @ body)"

definition timesD :: "rat \<Rightarrow> rat \<Rightarrow> rat" where
  \<comment> \<open>\<open>a * b\<close> on numbers\<close>
  "timesD a b = toDouble (a * b)"

definition plusD :: "rat \<Rightarrow> rat \<Rightarrow> rat" where
  \<comment> \<open>\<open>a + b\<close> on numbers\<close>
  "plusD a b = toDouble (a + b)"

definition minusD :: "rat \<Rightarrow> rat \<Rightarrow> rat" where
  \<comment> \<open>\<open>a - b\<close> on numbers\<close>
  "minusD a b = toDouble (a - b)"

section \<open>Amounts\<close>

text \<open>
  \<open>x.toFixed(4)\<close> yields a decimal string with four fraction digits, computed from the
  exact value of the double \<open>x\<close> (below \<open>10^21\<close> in magnitude); it is
  represented by its sign and its number of ten-thousandths, \<open>showAmount\<close> prints it and
  \<open>parseEther\<close> reads it as wei (18 decimals), as \<open>ethers.parseEther(amount.toString())\<close>
  does. \<open>formatEther\<close> prints wei as ethers does: at least one fraction digit, no
  trailing zeros.
\<close>

record decimal4 =
  negative :: bool
  scaled :: nat

definition toFixed4 :: "rat \<Rightarrow> decimal4" where
  \<comment> \<open>\<open>Number.prototype.toFixed(4)\<close>: the sign is split off, ties round up in magnitude\<close>
  "toFixed4 x =
     (if x < 0 then \<lparr>negative = True, scaled = nat \<lfloor>(- x) * 10000 + 1 / 2\<rfloor>\<rparr>
      else \<lparr>negative = False, scaled = nat \<lfloor>x * 10000 + 1 / 2\<rfloor>\<rparr>)"

definition padLeft :: "nat \<Rightarrow> string \<Rightarrow> string" where
  "padLeft n s = replicate (n - length s) (CHR ''0'') @ s"

definition showAmount :: "decimal4 \<Rightarrow> string" where
  "showAmount a =
     (if negative a then ''-'' else []) @ showNat (scaled a div 10000) @ ''.'' @
     padLeft 4 (showNat (scaled a mod 10000))"

definition parseEther :: "decimal4 \<Rightarrow> int" where
  "parseEther a = (if negative a then - 1 else 1) * int (scaled a) * 10 ^ 14"

definition trimZeros :: "string \<Rightarrow> string" where
  "trimZeros s =
     (let t = rev (dropWhile (\<lambda>c. c = CHR ''0'') (rev s)) in if t = [] then ''0'' else t)"

definition formatEther :: "int \<Rightarrow> string" where
  "formatEther wei =
     (let v = nat \<bar>wei\<bar> in
      (if wei < 0 then ''-'' else []) @ showNat (v div 10 ^ 18) @ ''.'' @
      trimZeros (padLeft 18 (showNat (v mod 10 ^ 18))))"

section \<open>Errors, outcomes and the process state\<close>

text \<open>
  Every \<open>throw\<close> of the script is a constructor of \<open>error\<close>; \<open>Rejected m\<close> is an
  error raised by the ethers library or the RPC node, of which the script only reads
  the message \<open>m\<close>. An awaited call either throws, returns, or (a confirmation that
  is awaited without a timeout) never settles.
\<close>

datatype error =
    Rejected string
  | ProcessStopped
  | InvalidWalletAddress
  | ProviderInitFailed nat
  | ApproveReverted
  | TransactionReverted
  | ConfirmationTimedOut
  | NoOutstandingRequests
  | NotReadyToClaim
  | NoPrivateKeys
  | NoProxies
  | InsufficientWETH nat decimal4
  | InsufficientEXETH nat decimal4
  | InsufficientETH nat decimal4
  | InsufficientGas nat nat
  | InsufficientAmountPlusGas nat int
  | TypeError string

fun message :: "error \<Rightarrow> string" where
  "message (Rejected m) = m"
| "message ProcessStopped = ''Process stopped''"
| "message InvalidWalletAddress = ''Invalid wallet address''"
| "message (ProviderInitFailed chainId) =
     ''Failed to initialize provider for chain '' @ showNat chainId"
| "message ApproveReverted = ''Approve transaction reverted''"
| "message TransactionReverted = ''Transaction reverted''"
| "message ConfirmationTimedOut = ''Transaction confirmation timed out''"
| "message NoOutstandingRequests = ''No outstanding withdraw requests''"
| "message NotReadyToClaim = ''Not ready to claim yet''"
| "message NoPrivateKeys = ''No private keys found in pk.txt''"
| "message NoProxies = ''No proxy found in proxy.txt''"
| "message (InsufficientWETH balance amount) =
     ''Insufficient WETH balance: '' @ formatEther (int balance) @ '' < '' @ showAmount amount"
| "message (InsufficientEXETH balance amount) =
     ''Insufficient eXETH balance: '' @ formatEther (int balance) @ '' < '' @ showAmount amount"
| "message (InsufficientETH balance amount) =
     ''Insufficient ETH balance: '' @ formatEther (int balance) @ '' < '' @ showAmount amount"
| "message (InsufficientGas balance cost) =
     ''Insufficient ETH for gas: '' @ formatEther (int balance) @ '' < '' @ formatEther (int cost)"
| "message (InsufficientAmountPlusGas balance need) =
     ''Insufficient ETH for amount + gas: '' @ formatEther (int balance) @ '' < '' @ formatEther need"
| "message (TypeError m) = m"

datatype 'a outcome = Threw error | Returned 'a | NeverSettles

type_synonym 'a rpc = "string + 'a"

datatype log_type = LogError | LogSuccess | LogWarn | LogWait | LogInfo | LogDelay | LogDebug

record RunConfig =
  stakeRepetitions :: rat
  unstakeRepetitions :: rat
  claimRepetitions :: rat
  wethStakeRange_min :: rat
  wethStakeRange_max :: rat
  exethUnstakeRange_min :: rat
  exethUnstakeRange_max :: rat
  loopHours :: rat

record FeeData =
  fd_gasPrice :: "nat option"
  fd_maxFeePerGas :: "nat option"
  fd_maxPriorityFeePerGas :: "nat option"

datatype FeeParams =
    LegacyFee nat       \<comment> \<open>\<open>{ gasPrice, type: 0 }\<close>\<close>
  | DynamicFee nat nat  \<comment> \<open>\<open>{ maxFeePerGas, maxPriorityFeePerGas, type: 2 }\<close>\<close>

datatype calldata =
    Approve string int           \<comment> \<open>\<open>approve(spender, amount)\<close>\<close>
  | DepositToken string int      \<comment> \<open>\<open>deposit(_token, _value)\<close> of the stake contract\<close>
  | WithdrawToken int string     \<comment> \<open>\<open>withdraw(_value, _addr)\<close> of the unstake contract\<close>
  | ClaimRequest nat string      \<comment> \<open>\<open>claim(withdrawRequestIndex, user)\<close>\<close>
  | WrapDeposit                  \<comment> \<open>\<open>deposit()\<close> of WETH\<close>
  | UnwrapWithdraw int           \<comment> \<open>\<open>withdraw(wad)\<close> of WETH\<close>

record TxRequest =
  tx_to :: string
  tx_data :: calldata
  tx_value :: int
  tx_fee :: FeeParams
  tx_gasLimit :: nat
  tx_nonce :: int

datatype operation = Stake | Unstake | Claim | Wrap | Unwrap

text \<open>
  The trace records, in order, what the script does to the outside world besides
  logging: each operation it starts (with the wallet's address and the amount), each
  request it passes to \<open>wallet.sendTransaction\<close> (with the sender's address) and each
  delay it waits.
\<close>

datatype event =
    Started operation string "decimal4 option"
  | Sent string TxRequest
  | Slept nat

record bot_state =
  transactionLogs :: "(log_type \<times> string) list"
  activityRunning :: bool
  isCycleRunning :: bool
  shouldStop :: bool
  dailyActivityInterval :: "rat option"
  accounts :: "string list"
  proxies :: "string list"
  nonceTracker :: "string \<rightharpoonup> int"
  hasLoggedSleepInterrupt :: bool
  activeProcesses :: int
  dailyActivityConfig :: RunConfig
  stopCheckPending :: bool
  trace :: "event list"

type_synonym 'a action = "bot_state \<Rightarrow> 'a outcome \<times> bot_state"

definition ret :: "'a \<Rightarrow> 'a action" where
  "ret v s = (Returned v, s)"

definition throw :: "error \<Rightarrow> 'a action" where
  "throw e s = (Threw e, s)"

definition andThen :: "'a action \<Rightarrow> ('a \<Rightarrow> 'b action) \<Rightarrow> 'b action" where
  "andThen m f s =
     (case m s of
        (Returned v, s') \<Rightarrow> f v s'
      | (Threw e, s') \<Rightarrow> (Threw e, s')
      | (NeverSettles, s') \<Rightarrow> (NeverSettles, s'))"

definition tryCatch :: "'a action \<Rightarrow> (error \<Rightarrow> 'a action) \<Rightarrow> 'a action" where
  "tryCatch m handler s =
     (case m s of
        (Threw e, s') \<Rightarrow> handler e s'
      | (Returned v, s') \<Rightarrow> (Returned v, s')
      | (NeverSettles, s') \<Rightarrow> (NeverSettles, s'))"

definition await :: "'a rpc \<Rightarrow> 'a action" where
  \<comment> \<open>an awaited library call that settles: rejected with a message, or resolved\<close>
  "await r s = (case r of Inl m \<Rightarrow> (Threw (Rejected m), s) | Inr v \<Rightarrow> (Returned v, s))"

definition exec :: "(bot_state \<Rightarrow> bot_state) \<Rightarrow> unit action" where
  "exec f s = (Returned (), f s)"

definition addLog :: "string \<Rightarrow> log_type \<Rightarrow> bot_state \<Rightarrow> bot_state" where
  \<comment> \<open>the entry without its timestamp and colour; a debug entry is dropped unless \<open>isDebug\<close>\<close>
  "addLog msg type s =
     (if type = LogDebug \<and> \<not> isDebug then s
      else s\<lparr>transactionLogs := transactionLogs s @ [(type, msg)]\<rparr>)"

definition emit :: "event \<Rightarrow> bot_state \<Rightarrow> bot_state" where
  "emit ev s = s\<lparr>trace := trace s @ [ev]\<rparr>"

section \<open>The ethers library\<close>

text \<open>
  Two functions of the library need Keccak-256 and elliptic-curve arithmetic and are
  taken as parameters: the validity of an address string and the derivation of a
  wallet's address from its private key (the constructor throws on a malformed key).
  \<open>outOfBounds\<close> is the message of the error the ABI encoder raises for a value that
  does not fit \<open>uint256\<close>.
\<close>

record ethers =
  isAddress :: "string \<Rightarrow> bool"
  walletOf :: "string \<Rightarrow> string + string"
  outOfBounds :: "int \<Rightarrow> string"

definition encodeUint256 :: "ethers \<Rightarrow> int \<Rightarrow> unit action" where
  \<comment> \<open>\<open>encodeFunctionData\<close> with a \<open>uint256\<close> argument\<close>
  "encodeUint256 lib v =
     (if 0 \<le> v \<and> v < 2 ^ 256 then ret () else throw (Rejected (outOfBounds lib v)))"

section \<open>Nonce tracker and fee parameters\<close>

definition nonceKeyOf :: "nat \<Rightarrow> string \<Rightarrow> string" where
  \<comment> \<open>\<open>`${chainId}_${walletAddress}`\<close>\<close>
  "nonceKeyOf chainId walletAddress = showNat chainId @ ''_'' @ walletAddress"

definition getNextNonce :: "ethers \<Rightarrow> nat rpc \<Rightarrow> string \<Rightarrow> nat \<Rightarrow> int action" where
  "getNextNonce lib pendingCount walletAddress chainId s =
     (if shouldStop s then
        throw ProcessStopped (addLog ''Nonce fetch stopped due to stop request.'' LogInfo s)
      else if \<not> isAddress lib walletAddress then
        throw InvalidWalletAddress
          (addLog (''Invalid wallet address: '' @ walletAddress) LogError s)
      else
        let nonceKey = nonceKeyOf chainId walletAddress in
        tryCatch
          (andThen (await pendingCount) (\<lambda>count.
             let pendingNonce = int count;
                 lastUsedNonce =
                   (case nonceTracker s nonceKey of
                      None \<Rightarrow> pendingNonce - 1
                    | Some v \<Rightarrow> if v \<noteq> 0 then v else pendingNonce - 1);
                 nextNonce =
                   (if pendingNonce > lastUsedNonce + 1 then pendingNonce else lastUsedNonce + 1)
             in andThen (exec (\<lambda>s. s\<lparr>nonceTracker := (nonceTracker s)(nonceKey \<mapsto> nextNonce)\<rparr>)) (\<lambda>_.
                andThen (exec (addLog (''Debug: Fetched nonce '' @ showInt nextNonce @ '' for '' @
                                 getShortAddress walletAddress @ '' on chain '' @ showNat chainId)
                               LogDebug)) (\<lambda>_.
                ret nextNonce))))
          (\<lambda>error.
             andThen (exec (addLog (''Failed to fetch nonce for '' @ getShortAddress walletAddress @
                              '' on chain '' @ showNat chainId @ '': '' @ message error) LogError)) (\<lambda>_.
             throw error))
          s)"

definition truthy :: "nat option \<Rightarrow> bool" where
  \<comment> \<open>truthiness of a value that is \<open>null\<close> or a BigInt: \<open>null\<close> and \<open>0n\<close> are falsy\<close>
  "truthy v = (case v of None \<Rightarrow> False | Some n \<Rightarrow> n \<noteq> 0)"

definition orElse :: "nat option \<Rightarrow> nat \<Rightarrow> nat" where
  \<comment> \<open>\<open>v || d\<close> for such a value\<close>
  "orElse v d = (case v of None \<Rightarrow> d | Some n \<Rightarrow> if n \<noteq> 0 then n else d)"

definition getFeeParams :: "FeeData rpc \<Rightarrow> FeeParams action" where
  "getFeeParams feeDataResult =
     tryCatch
       (andThen (await feeDataResult) (\<lambda>feeData.
          if truthy (fd_maxFeePerGas feeData) \<and> truthy (fd_maxPriorityFeePerGas feeData)
          then ret (DynamicFee (orElse (fd_maxFeePerGas feeData) 0)
                               (orElse (fd_maxPriorityFeePerGas feeData) 0))
          else ret (LegacyFee (orElse (fd_gasPrice feeData) oneGwei))))
       (\<lambda>error.
          andThen (exec (addLog (''Failed to get fee data: '' @ message error @ ''. Using default.'')
                           LogDebug)) (\<lambda>_.
          ret (LegacyFee oneGwei)))"

section \<open>What the chain answers\<close>

text \<open>
  The answers of the RPC node and of the wallet during one operation are inputs of the
  model, one field per awaited call, in the order the operation makes them. A
  transaction that was broadcast answers \<open>tx.wait()\<close> with a rejection, with a receipt
  (its status, 0 for a revert), or not at all.
\<close>

datatype waitResult = WaitRejected string | Receipt nat | StillPending

record TxResponse =
  tx_hash :: string
  tx_wait :: waitResult

record approve_io =
  ap_allowance :: "nat rpc"
  ap_feeData :: "FeeData rpc"
  ap_pendingCount :: "nat rpc"
  ap_sendResult :: "TxResponse rpc"

record chain_io =
  io_providerError :: "string option"
  io_tokenBalance :: "nat rpc"
  io_approval :: approve_io
  io_withdrawCount :: "nat rpc"
  io_createdAt :: "nat rpc"
  io_coolDownPeriod :: "nat rpc"
  io_latestTimestamp :: "nat rpc"
  io_feeData :: "FeeData rpc"
  io_ethBalance :: "nat rpc"
  io_pendingCount :: "nat rpc"
  io_sendResult :: "TxResponse rpc"

record Direction =
  dir_chain :: string
  dir_rpc :: string
  dir_chainId :: nat

definition directions :: "Direction list" where
  "directions =
     [\<lparr>dir_chain = ''holesky'', dir_rpc = ''https://ethereum-holesky-rpc.publicnode.com/'',
       dir_chainId = HOLESKY_CHAIN_ID\<rparr>]"

definition getProvider :: "string option \<Rightarrow> nat \<Rightarrow> unit action" where
  \<comment> \<open>three attempts at constructing the agent and the provider, each failing alike; the
      timers of the two un-awaited \<open>sleep(1000)\<close> calls run beside the script and are left out\<close>
  "getProvider failure chainId =
     (case failure of
        None \<Rightarrow> ret ()
      | Some m \<Rightarrow>
          andThen (exec (addLog (''Attempt 1/3 failed to initialize provider: '' @ m) LogError)) (\<lambda>_.
          andThen (exec (addLog (''Attempt 2/3 failed to initialize provider: '' @ m) LogError)) (\<lambda>_.
          andThen (exec (addLog (''Attempt 3/3 failed to initialize provider: '' @ m) LogError)) (\<lambda>_.
          throw (ProviderInitFailed chainId)))))"

definition sendTransaction :: "TxResponse rpc \<Rightarrow> string \<Rightarrow> TxRequest \<Rightarrow> TxResponse action" where
  \<comment> \<open>\<open>wallet.sendTransaction(request)\<close>, the wallet being the one at \<open>sender\<close>\<close>
  "sendTransaction result sender request =
     andThen (exec (emit (Sent sender request))) (\<lambda>_. await result)"

definition waitForReceipt :: "waitResult \<Rightarrow> nat action" where
  \<comment> \<open>\<open>await tx.wait()\<close>\<close>
  "waitForReceipt w s =
     (case w of
        WaitRejected m \<Rightarrow> (Threw (Rejected m), s)
      | Receipt status \<Rightarrow> (Returned status, s)
      | StillPending \<Rightarrow> (NeverSettles, s))"

definition raceTimeout :: "waitResult \<Rightarrow> nat action" where
  \<comment> \<open>\<open>await Promise.race([tx.wait(), timeoutPromise])\<close>: the timer wins after 300 seconds\<close>
  "raceTimeout w s =
     (case w of
        WaitRejected m \<Rightarrow> (Threw (Rejected m), s)
      | Receipt status \<Rightarrow> (Returned status, s)
      | StillPending \<Rightarrow> (Threw ConfirmationTimedOut, s))"

definition estimatedGasCostOf :: "FeeParams \<Rightarrow> nat \<Rightarrow> nat action" where
  \<comment> \<open>\<open>gasFee = feeParams.gasPrice || feeParams.maxFeePerGas; gasFee * gasLimit\<close>: a
      falsy \<open>gasPrice\<close> with no \<open>maxFeePerGas\<close> leaves \<open>undefined\<close>, and the product throws\<close>
  "estimatedGasCostOf feeParams gasLimit =
     (case feeParams of
        LegacyFee g \<Rightarrow>
          if g \<noteq> 0 then ret (g * gasLimit)
          else throw (TypeError ''Cannot mix BigInt and other types, use explicit conversions'')
      | DynamicFee m p \<Rightarrow> ret (m * gasLimit))"

section \<open>Approval\<close>

definition approveToken ::
  "ethers \<Rightarrow> approve_io \<Rightarrow> string \<Rightarrow> string \<Rightarrow> string \<Rightarrow> int \<Rightarrow> unit action" where
  "approveToken lib io walletAddress tokenAddress spender amountWei =
     andThen (await (ap_allowance io)) (\<lambda>allowance.
     if int allowance \<ge> amountWei then
       exec (addLog (''Token '' @ getShortAddress tokenAddress @ '' already approved for '' @
                     formatEther amountWei) LogInfo)
     else
       andThen (encodeUint256 lib amountWei) (\<lambda>_.
       andThen (getFeeParams (ap_feeData io)) (\<lambda>feeParams.
       let gasLimit = 100000 in
       andThen (getNextNonce lib (ap_pendingCount io) walletAddress HOLESKY_CHAIN_ID) (\<lambda>nonce.
       andThen (sendTransaction (ap_sendResult io) walletAddress
                  \<lparr>tx_to = tokenAddress, tx_data = Approve spender amountWei, tx_value = 0,
                   tx_fee = feeParams, tx_gasLimit = gasLimit, tx_nonce = nonce\<rparr>) (\<lambda>tx.
       andThen (exec (addLog (''Approve Transaction sent: '' @ getShortHash (tx_hash tx)) LogWarn)) (\<lambda>_.
       andThen (waitForReceipt (tx_wait tx)) (\<lambda>status.
       if status = 0 then throw ApproveReverted
       else exec (addLog (''Token approved successfully, Hash: '' @ getShortHash (tx_hash tx))
                    LogSuccess))))))))"

section \<open>The five operations\<close>

text \<open>
  Each \<open>perform\<close> function ends with the same two \<open>try\<close> blocks, which differ in the
  words they log only: \<open>broadcast\<close> reserves the nonce and sends the request, evicting
  the tracker entry when the error's message contains \<open>nonce\<close>; \<open>confirm\<close> waits for
  the receipt against the 300-second timer.
\<close>

definition broadcast ::
  "ethers \<Rightarrow> chain_io \<Rightarrow> string \<Rightarrow> string \<Rightarrow> string \<Rightarrow> nat \<Rightarrow> (int \<Rightarrow> TxRequest) \<Rightarrow>
   TxResponse action" where
  "broadcast lib io label walletAddress address chainId request =
     tryCatch
       (andThen (getNextNonce lib (io_pendingCount io) address chainId) (\<lambda>nonce.
        andThen (sendTransaction (io_sendResult io) walletAddress (request nonce)) (\<lambda>tx.
        andThen (exec (addLog (label @ '' Transaction sent: '' @ getShortHash (tx_hash tx)) LogWarn)) (\<lambda>_.
        ret tx))))
       (\<lambda>error.
        andThen (exec (addLog (''Transaction failed: '' @ message error) LogError)) (\<lambda>_.
        andThen (if includesText (message error) ''nonce'' then
                   andThen (exec (\<lambda>s. s\<lparr>nonceTracker :=
                                          (nonceTracker s)(nonceKeyOf chainId address := None)\<rparr>)) (\<lambda>_.
                   exec (addLog ''Nonce error detected, resetting nonce for next attempt.'' LogWarn))
                 else ret ()) (\<lambda>_.
        throw error)))"

definition confirm :: "TxResponse \<Rightarrow> string \<Rightarrow> unit action" where
  "confirm tx successText =
     tryCatch
       (andThen (raceTimeout (tx_wait tx)) (\<lambda>status.
        if status = 0 then throw TransactionReverted
        else exec (addLog (successText @ getShortHash (tx_hash tx)) LogSuccess)))
       (\<lambda>error.
        andThen (exec (addLog (''Transaction failed: '' @ message error) LogError)) (\<lambda>_.
        throw error))"

definition submitTransaction ::
  "ethers \<Rightarrow> chain_io \<Rightarrow> string \<Rightarrow> string \<Rightarrow> string \<Rightarrow> nat \<Rightarrow> nat \<Rightarrow> string \<Rightarrow> calldata \<Rightarrow>
   string \<Rightarrow> unit action" where
  \<comment> \<open>the lines stake, unstake, claim and unwrap share: fee parameters, the gas check
      against a fresh balance, and the two blocks above; the request carries no value\<close>
  "submitTransaction lib io label walletAddress address chainId gasLimit to txData successText =
     andThen (getFeeParams (io_feeData io)) (\<lambda>feeParams.
     andThen (estimatedGasCostOf feeParams gasLimit) (\<lambda>estimatedGasCost.
     andThen (await (io_ethBalance io)) (\<lambda>ethBalance.
     if ethBalance < estimatedGasCost then throw (InsufficientGas ethBalance estimatedGasCost)
     else
       andThen (broadcast lib io label walletAddress address chainId
                  (\<lambda>nonce. \<lparr>tx_to = to, tx_data = txData, tx_value = 0, tx_fee = feeParams,
                             tx_gasLimit = gasLimit, tx_nonce = nonce\<rparr>)) (\<lambda>tx.
       confirm tx successText))))"

definition performStake ::
  "ethers \<Rightarrow> chain_io \<Rightarrow> string \<Rightarrow> Direction \<Rightarrow> decimal4 \<Rightarrow> unit action" where
  "performStake lib io walletAddress direction amount =
     andThen (exec (emit (Started Stake walletAddress (Some amount)))) (\<lambda>_.
     andThen (getProvider (io_providerError io) (dir_chainId direction)) (\<lambda>_.
     let amountWei = parseEther amount;
         address = toLowerCase walletAddress in
     andThen (encodeUint256 lib amountWei) (\<lambda>_.
     andThen (await (io_tokenBalance io)) (\<lambda>wethBalance.
     if int wethBalance < amountWei then throw (InsufficientWETH wethBalance amount)
     else
       andThen (approveToken lib (io_approval io) walletAddress WETH_ADDRESS STAKE_CONTRACT_ADDRESS
                  amountWei) (\<lambda>_.
       submitTransaction lib io ''Stake'' walletAddress address (dir_chainId direction) 650000
         STAKE_CONTRACT_ADDRESS (DepositToken WETH_ADDRESS amountWei)
         (''Stake '' @ showAmount amount @ '' WETH for eXETH Successfully, Hash: ''))))))"

definition performUnstake ::
  "ethers \<Rightarrow> chain_io \<Rightarrow> string \<Rightarrow> Direction \<Rightarrow> decimal4 \<Rightarrow> unit action" where
  "performUnstake lib io walletAddress direction amount =
     andThen (exec (emit (Started Unstake walletAddress (Some amount)))) (\<lambda>_.
     andThen (getProvider (io_providerError io) (dir_chainId direction)) (\<lambda>_.
     let amountWei = parseEther amount;
         address = toLowerCase walletAddress in
     andThen (encodeUint256 lib amountWei) (\<lambda>_.
     andThen (await (io_tokenBalance io)) (\<lambda>exethBalance.
     if int exethBalance < amountWei then throw (InsufficientEXETH exethBalance amount)
     else
       andThen (approveToken lib (io_approval io) walletAddress EXETH_ADDRESS UNSTAKE_CONTRACT_ADDRESS
                  amountWei) (\<lambda>_.
       submitTransaction lib io ''Unstake'' walletAddress address (dir_chainId direction) 650000
         UNSTAKE_CONTRACT_ADDRESS (WithdrawToken amountWei WETH_ADDRESS)
         (''Unstake '' @ showAmount amount @ '' eXETH for WETH Successfully, Hash: ''))))))"

definition performClaim :: "ethers \<Rightarrow> chain_io \<Rightarrow> string \<Rightarrow> Direction \<Rightarrow> unit action" where
  "performClaim lib io walletAddress direction =
     andThen (exec (emit (Started Claim walletAddress None))) (\<lambda>_.
     andThen (getProvider (io_providerError io) (dir_chainId direction)) (\<lambda>_.
     let address = toLowerCase walletAddress in
     andThen (await (io_withdrawCount io)) (\<lambda>count.
     if count = 0 then throw NoOutstandingRequests
     else
       andThen (await (io_createdAt io)) (\<lambda>createdAt.
       andThen (await (io_coolDownPeriod io)) (\<lambda>coolDown.
       andThen (await (io_latestTimestamp io)) (\<lambda>now.
       if createdAt + coolDown > now then throw NotReadyToClaim
       else
         submitTransaction lib io ''Claim'' walletAddress address (dir_chainId direction) 650000
           CLAIM_CONTRACT_ADDRESS (ClaimRequest 0 address) ''Claim Successfully, Hash: ''))))))"

definition performWrap ::
  "ethers \<Rightarrow> chain_io \<Rightarrow> string \<Rightarrow> Direction \<Rightarrow> decimal4 \<Rightarrow> unit action" where
  "performWrap lib io walletAddress direction amount =
     andThen (exec (emit (Started Wrap walletAddress (Some amount)))) (\<lambda>_.
     andThen (getProvider (io_providerError io) (dir_chainId direction)) (\<lambda>_.
     let amountWei = parseEther amount;
         address = toLowerCase walletAddress in
     andThen (await (io_ethBalance io)) (\<lambda>ethBalance.
     if int ethBalance < amountWei then throw (InsufficientETH ethBalance amount)
     else
       andThen (getFeeParams (io_feeData io)) (\<lambda>feeParams.
       let gasLimit = 100000 in
       andThen (estimatedGasCostOf feeParams gasLimit) (\<lambda>estimatedGasCost.
       if int ethBalance < amountWei + int estimatedGasCost then
         throw (InsufficientAmountPlusGas ethBalance (amountWei + int estimatedGasCost))
       else
         andThen (broadcast lib io ''Wrap'' walletAddress address (dir_chainId direction)
                    (\<lambda>nonce. \<lparr>tx_to = WETH_ADDRESS, tx_data = WrapDeposit, tx_value = amountWei,
                               tx_fee = feeParams, tx_gasLimit = gasLimit, tx_nonce = nonce\<rparr>)) (\<lambda>tx.
         confirm tx (''Wrap '' @ showAmount amount @ '' ETH to WETH Successfully, Hash: '')))))))"

definition performUnwrap ::
  "ethers \<Rightarrow> chain_io \<Rightarrow> string \<Rightarrow> Direction \<Rightarrow> decimal4 \<Rightarrow> unit action" where
  "performUnwrap lib io walletAddress direction amount =
     andThen (exec (emit (Started Unwrap walletAddress (Some amount)))) (\<lambda>_.
     andThen (getProvider (io_providerError io) (dir_chainId direction)) (\<lambda>_.
     let amountWei = parseEther amount;
         address = toLowerCase walletAddress in
     andThen (encodeUint256 lib amountWei) (\<lambda>_.
     andThen (await (io_tokenBalance io)) (\<lambda>wethBalance.
     if int wethBalance < amountWei then throw (InsufficientWETH wethBalance amount)
     else
       submitTransaction lib io ''Unwrap'' walletAddress address (dir_chainId direction) 100000
         WETH_ADDRESS (UnwrapWithdraw amountWei)
         (''Unwrap '' @ showAmount amount @ '' WETH to ETH Successfully, Hash: '')))))"

section \<open>Delays, the stop request and the wallet panel\<close>

definition stopActivity :: "bot_state \<Rightarrow> bot_state" where
  \<comment> \<open>the menu's \<open>Stop Activity\<close> handler; its polling timer is \<open>stopCheckPending\<close>\<close>
  "stopActivity s =
     (let s1 = s\<lparr>shouldStop := True\<rparr>;
          s2 = (case dailyActivityInterval s1 of
                  None \<Rightarrow> s1
                | Some h \<Rightarrow> addLog ''Cleared daily activity interval.'' LogInfo
                             (s1\<lparr>dailyActivityInterval := None\<rparr>));
          s3 = addLog ''Stopping daily activity. Please wait for ongoing process to complete.''
                 LogInfo s2
      in if activeProcesses s3 \<le> 0 then
           addLog ''Daily activity stopped successfully.'' LogSuccess
             (s3\<lparr>activityRunning := False, isCycleRunning := False, shouldStop := False,
                 hasLoggedSleepInterrupt := False\<rparr>)
         else s3\<lparr>stopCheckPending := True\<rparr>)"

definition sleep :: "nat \<Rightarrow> bool \<Rightarrow> unit action" where
  \<comment> \<open>\<open>stopPressed\<close>: the user chooses \<open>Stop Activity\<close> while this delay is waited\<close>
  "sleep ms stopPressed s =
     (if shouldStop s then
        ret () (if \<not> hasLoggedSleepInterrupt s
                then (addLog ''Process stopped successfully.'' LogInfo s)
                       \<lparr>hasLoggedSleepInterrupt := True\<rparr>
                else s)
      else
        let s1 = emit (Slept ms) (s\<lparr>activeProcesses := activeProcesses s + 1\<rparr>);
            s2 = (if stopPressed then stopActivity s1 else s1);
            s3 = (if shouldStop s2 \<and> \<not> hasLoggedSleepInterrupt s2
                  then (addLog ''Process interrupted.'' LogInfo s2)\<lparr>hasLoggedSleepInterrupt := True\<rparr>
                  else s2)
        in ret () (s3\<lparr>activeProcesses := max 0 (activeProcesses s3 - 1)\<rparr>))"

definition updateWallets :: "(nat \<times> string) list \<Rightarrow> unit action" where
  \<comment> \<open>\<open>failures\<close>: the accounts whose balances could not be fetched, with the messages, as
      they are logged; the panel itself is not modelled\<close>
  "updateWallets failures =
     andThen (exec (\<lambda>s. foldl (\<lambda>s' (i, m).
                addLog (''Failed to fetch wallet data for account #'' @ showNat (i + 1) @ '': '' @ m)
                  LogError s') s failures)) (\<lambda>_.
     exec (addLog ''Wallet data updated.'' LogSuccess))"

definition tryFinally :: "'a action \<Rightarrow> unit action \<Rightarrow> 'a action" where
  "tryFinally m cleanup s =
     (case m s of
        (NeverSettles, s') \<Rightarrow> (NeverSettles, s')
      | (r, s') \<Rightarrow>
          (case cleanup s' of
             (Returned u, s'') \<Rightarrow> (r, s'')
           | (Threw e, s'') \<Rightarrow> (Threw e, s'')
           | (NeverSettles, s'') \<Rightarrow> (NeverSettles, s'')))"

primrec forLoop :: "nat list \<Rightarrow> (nat \<Rightarrow> unit action) \<Rightarrow> unit action" where
  \<comment> \<open>\<open>for (i = 0; i < n && !shouldStop; i++) body\<close> over the indices \<open>[0..<n]\<close>\<close>
  "forLoop [] body = ret ()"
| "forLoop (i # rest) body =
     (\<lambda>s. if shouldStop s then ret () s
          else andThen (body i) (\<lambda>_. forLoop rest body) s)"

section \<open>The daily cycle\<close>

text \<open>
  The inputs of one cycle: what the chain answers during each operation, the failures
  of each refresh of the wallet panel, the draws of \<open>Math.random()\<close> for each amount and
  each delay, and whether the user chooses \<open>Stop Activity\<close> during a delay, each by
  account index and place in the cycle. The proxy only reaches \<open>getProvider\<close>, whose
  outcome is \<open>io_providerError\<close>. The configuration is read when a loop starts: nothing
  in the model edits it while a cycle runs.
\<close>

datatype pause = NextRepetition operation nat | BeforePhase operation | NextAccount

record cycle_io =
  chainAt :: "nat \<Rightarrow> operation \<Rightarrow> nat \<Rightarrow> chain_io"
  refreshAt :: "nat \<Rightarrow> operation \<Rightarrow> nat \<Rightarrow> (nat \<times> string) list"
  randomAt :: "nat \<Rightarrow> operation \<Rightarrow> nat \<Rightarrow> rat"
  delayAt :: "nat \<Rightarrow> pause \<Rightarrow> rat"
  stopAt :: "nat \<Rightarrow> pause \<Rightarrow> bool"

definition randomDelayOf :: "rat \<Rightarrow> nat" where
  \<comment> \<open>\<open>Math.floor(Math.random() * (15000 - 10000 + 1)) + 10000\<close>\<close>
  "randomDelayOf r = nat \<lfloor>timesD r (15000 - 10000 + 1)\<rfloor> + 10000"

definition accountLabel :: "nat \<Rightarrow> string" where
  "accountLabel accountIndex = ''Account '' @ showNat (accountIndex + 1)"

definition randomPause :: "cycle_io \<Rightarrow> nat \<Rightarrow> pause \<Rightarrow> string \<Rightarrow> unit action" where
  "randomPause io accountIndex p what =
     (let randomDelay = randomDelayOf (delayAt io accountIndex p) in
      andThen (exec (addLog (accountLabel accountIndex @ '' - Waiting '' @
                       showNat (randomDelay div 1000) @ '' seconds before '' @ what @ ''...'')
                     LogDelay)) (\<lambda>_.
      sleep randomDelay (stopAt io accountIndex p)))"

definition stakeStep ::
  "ethers \<Rightarrow> cycle_io \<Rightarrow> nat \<Rightarrow> string \<Rightarrow> Direction \<Rightarrow> nat \<Rightarrow> unit action" where
  "stakeStep lib io accountIndex walletAddress direction stakeCount s =
     (let cfg = dailyActivityConfig s;
          amount = toFixed4 (plusD (timesD (randomAt io accountIndex Stake stakeCount)
                                             (minusD (wethStakeRange_max cfg) (wethStakeRange_min cfg)))
                                     (wethStakeRange_min cfg))
      in
      andThen (exec (addLog (accountLabel accountIndex @ '' - Stake '' @ showNat (stakeCount + 1) @
                       '': '' @ showAmount amount @ '' WETH for eXETH'') LogWarn)) (\<lambda>_.
      andThen (tryFinally
                 (tryCatch
                    (performStake lib (chainAt io accountIndex Stake stakeCount) walletAddress
                       direction amount)
                    (\<lambda>error. exec (addLog (accountLabel accountIndex @ '' - Stake '' @
                                     showNat (stakeCount + 1) @ '': Failed: '' @ message error @
                                     ''. Skipping to next.'') LogError)))
                 (updateWallets (refreshAt io accountIndex Stake stakeCount))) (\<lambda>_.
      (\<lambda>s. if of_nat stakeCount < minusD (stakeRepetitions (dailyActivityConfig s)) 1 \<and> \<not> shouldStop s
           then randomPause io accountIndex (NextRepetition Stake stakeCount) ''next stake'' s
           else ret () s))) s)"

definition unstakeStep ::
  "ethers \<Rightarrow> cycle_io \<Rightarrow> nat \<Rightarrow> string \<Rightarrow> Direction \<Rightarrow> nat \<Rightarrow> unit action" where
  "unstakeStep lib io accountIndex walletAddress direction unstakeCount s =
     (let cfg = dailyActivityConfig s;
          amount = toFixed4 (plusD (timesD (randomAt io accountIndex Unstake unstakeCount)
                                             (minusD (exethUnstakeRange_max cfg)
                                                (exethUnstakeRange_min cfg)))
                                     (exethUnstakeRange_min cfg))
      in
      andThen (exec (addLog (accountLabel accountIndex @ '' - Unstake '' @
                       showNat (unstakeCount + 1) @ '': '' @ showAmount amount @
                       '' eXETH for WETH'') LogWarn)) (\<lambda>_.
      andThen (tryFinally
                 (tryCatch
                    (performUnstake lib (chainAt io accountIndex Unstake unstakeCount) walletAddress
                       direction amount)
                    (\<lambda>error. exec (addLog (accountLabel accountIndex @ '' - Unstake '' @
                                     showNat (unstakeCount + 1) @ '': Failed: '' @ message error @
                                     ''. Skipping to next.'') LogError)))
                 (updateWallets (refreshAt io accountIndex Unstake unstakeCount))) (\<lambda>_.
      (\<lambda>s. if of_nat unstakeCount < minusD (unstakeRepetitions (dailyActivityConfig s)) 1 \<and> \<not> shouldStop s
           then randomPause io accountIndex (NextRepetition Unstake unstakeCount) ''next unstake'' s
           else ret () s))) s)"

definition claimStep ::
  "ethers \<Rightarrow> cycle_io \<Rightarrow> nat \<Rightarrow> string \<Rightarrow> Direction \<Rightarrow> nat \<Rightarrow> unit action" where
  "claimStep lib io accountIndex walletAddress direction claimCount =
     andThen (exec (addLog (accountLabel accountIndex @ '' - Claim '' @ showNat (claimCount + 1))
                      LogWarn)) (\<lambda>_.
     andThen (tryFinally
                (tryCatch
                   (performClaim lib (chainAt io accountIndex Claim claimCount) walletAddress
                      direction)
                   (\<lambda>error. exec (addLog (accountLabel accountIndex @ '' - Claim '' @
                                    showNat (claimCount + 1) @ '': Failed: '' @ message error @
                                    ''. Skipping to next.'') LogError)))
                (updateWallets (refreshAt io accountIndex Claim claimCount))) (\<lambda>_.
     (\<lambda>s. if of_nat claimCount < minusD (claimRepetitions (dailyActivityConfig s)) 1 \<and> \<not> shouldStop s
          then randomPause io accountIndex (NextRepetition Claim claimCount) ''next claim'' s
          else ret () s)))"

definition proxyFor :: "string list \<Rightarrow> nat \<Rightarrow> string option" where
  \<comment> \<open>\<open>proxies[accountIndex % proxies.length] || null\<close>\<close>
  "proxyFor ps accountIndex =
     (if ps = [] then None
      else let p = ps ! (accountIndex mod length ps) in if p = [] then None else Some p)"

definition repetitionsOf :: "rat \<Rightarrow> nat list" where
  \<comment> \<open>the values of \<open>c\<close> for which \<open>c < n\<close> holds in \<open>for (c = 0; c < n; c++)\<close>\<close>
  "repetitionsOf n = [0..<nat \<lceil>n\<rceil>]"

definition processAccount :: "ethers \<Rightarrow> cycle_io \<Rightarrow> nat \<Rightarrow> unit action" where
  "processAccount lib io accountIndex =
     andThen (exec (addLog (''Starting processing for account '' @ showNat (accountIndex + 1))
                      LogInfo)) (\<lambda>_.
     andThen (\<lambda>s. ret (proxyFor (proxies s) accountIndex) s) (\<lambda>proxyUrl.
     andThen (exec (addLog (accountLabel accountIndex @ '': Using Proxy '' @
                      (case proxyUrl of None \<Rightarrow> ''none'' | Some p \<Rightarrow> p)) LogInfo)) (\<lambda>_.
     andThen (\<lambda>s. await (walletOf lib (accounts s ! accountIndex)) s) (\<lambda>walletAddress.
     if \<not> isAddress lib walletAddress then
       exec (addLog (''Invalid wallet address for account '' @ showNat (accountIndex + 1) @ '': '' @
                     walletAddress) LogError)
     else
       andThen (exec (addLog (''Processing account '' @ showNat (accountIndex + 1) @ '': '' @
                        getShortAddress walletAddress) LogWait)) (\<lambda>_.
       let direction = hd directions in
       andThen (\<lambda>s. forLoop (repetitionsOf (stakeRepetitions (dailyActivityConfig s)))
                       (stakeStep lib io accountIndex walletAddress direction) s) (\<lambda>_.
       andThen (\<lambda>s. if stakeRepetitions (dailyActivityConfig s) > 0 \<and>
                        unstakeRepetitions (dailyActivityConfig s) > 0 \<and> \<not> shouldStop s
                     then randomPause io accountIndex (BeforePhase Unstake) ''starting unstake'' s
                     else ret () s) (\<lambda>_.
       andThen (\<lambda>s. forLoop (repetitionsOf (unstakeRepetitions (dailyActivityConfig s)))
                       (unstakeStep lib io accountIndex walletAddress direction) s) (\<lambda>_.
       andThen (\<lambda>s. if unstakeRepetitions (dailyActivityConfig s) > 0 \<and>
                        claimRepetitions (dailyActivityConfig s) > 0 \<and> \<not> shouldStop s
                     then randomPause io accountIndex (BeforePhase Claim) ''starting claim'' s
                     else ret () s) (\<lambda>_.
       andThen (\<lambda>s. forLoop (repetitionsOf (claimRepetitions (dailyActivityConfig s)))
                       (claimStep lib io accountIndex walletAddress direction) s) (\<lambda>_.
       (\<lambda>s. if int accountIndex < int (length (accounts s)) - 1 \<and> \<not> shouldStop s then
              andThen (exec (addLog ''Waiting 10 seconds before next account...'' LogDelay)) (\<lambda>_.
              sleep 10000 (stopAt io accountIndex NextAccount)) s
            else ret () s)))))))))))"

definition scheduleNext :: "unit action" where
  "scheduleNext s =
     (if \<not> shouldStop s \<and> activeProcesses s \<le> 0 then
        ret () ((addLog (''All accounts processed. Waiting '' @
                          showNumber (loopHours (dailyActivityConfig s)) @ '' hours for next cycle.'')
                   LogSuccess s)
                \<lparr>dailyActivityInterval :=
                   Some (timesD (timesD (timesD (loopHours (dailyActivityConfig s)) 60) 60) 1000)\<rparr>)
      else ret () s)"

definition cycleFinally :: "unit action" where
  "cycleFinally s =
     (let s' =
        (if shouldStop s then
           if activeProcesses s \<le> 0 then
             let s1 = (case dailyActivityInterval s of
                         None \<Rightarrow> s
                       | Some h \<Rightarrow> addLog ''Cleared daily activity interval.'' LogInfo
                                    (s\<lparr>dailyActivityInterval := None\<rparr>))
             in addLog ''Daily activity stopped successfully.'' LogSuccess
                  (s1\<lparr>activityRunning := False, isCycleRunning := False, shouldStop := False,
                      hasLoggedSleepInterrupt := False, activeProcesses := 0\<rparr>)
           else s\<lparr>stopCheckPending := True\<rparr>
         else s\<lparr>activityRunning := False,
                isCycleRunning := (activeProcesses s > 0 \<or> dailyActivityInterval s \<noteq> None)\<rparr>)
      in ret () (s'\<lparr>nonceTracker := Map.empty\<rparr>))"

definition runDailyActivity :: "ethers \<Rightarrow> cycle_io \<Rightarrow> unit action" where
  "runDailyActivity lib io s =
     (if length (accounts s) = 0 then ret () (addLog ''No valid accounts found.'' LogError s)
      else
        let cfg = dailyActivityConfig s;
            s1 = addLog (''Starting daily activity for all accounts. Auto Stake: '' @
                         showNumber (stakeRepetitions cfg) @ ''x, Auto Unstake: '' @
                         showNumber (unstakeRepetitions cfg) @ ''x, Auto Claim: '' @
                         showNumber (claimRepetitions cfg) @ ''x'') LogInfo s;
            s2 = s1\<lparr>activityRunning := True, isCycleRunning := True, shouldStop := False,
                    hasLoggedSleepInterrupt := False,
                    activeProcesses := max 0 (activeProcesses s1)\<rparr>
        in tryFinally
             (tryCatch
                (andThen (\<lambda>s. forLoop [0..<length (accounts s)] (processAccount lib io) s) (\<lambda>_.
                 scheduleNext))
                (\<lambda>error. exec (addLog (''Daily activity failed: '' @ message error) LogError)))
             cycleFinally s2)"

section \<open>Start-up\<close>

text \<open>
  The stored configuration holds, for each key, a JSON number (the rational its
  decimal literal denotes) or nothing; \<open>JSON.parse\<close> reads the number as the nearest
  double, and \<open>Number(v) || d\<close> yields the default \<open>d\<close> for a missing value and for
  zero. Stored values that are not numbers are outside the model.
\<close>

record StoredConfig =
  stored_stakeRepetitions :: "rat option"
  stored_unstakeRepetitions :: "rat option"
  stored_claimRepetitions :: "rat option"
  stored_wethStakeRange_min :: "rat option"
  stored_wethStakeRange_max :: "rat option"
  stored_exethUnstakeRange_min :: "rat option"
  stored_exethUnstakeRange_max :: "rat option"
  stored_loopHours :: "rat option"

datatype configFile = NoConfigFile | UnreadableConfig string | Parsed StoredConfig

definition numberOr :: "rat option \<Rightarrow> rat \<Rightarrow> rat" where
  \<comment> \<open>\<open>Number(v) || d\<close>, \<open>v\<close> being what \<open>JSON.parse\<close> made of the stored number and \<open>d\<close> a
      literal of the script: \<open>Number(undefined)\<close> is \<open>NaN\<close>, falsy as zero is\<close>
  "numberOr v d =
     (case v of
        None \<Rightarrow> toDouble d
      | Some x \<Rightarrow> if toDouble x \<noteq> 0 then toDouble x else toDouble d)"

definition loadConfig :: "configFile \<Rightarrow> bot_state \<Rightarrow> bot_state" where
  "loadConfig file s =
     (case file of
        NoConfigFile \<Rightarrow> addLog ''No config file found, using default settings.'' LogInfo s
      | UnreadableConfig m \<Rightarrow> addLog (''Failed to load config: '' @ m) LogError s
      | Parsed config \<Rightarrow>
          s\<lparr>dailyActivityConfig :=
              \<lparr>stakeRepetitions = numberOr (stored_stakeRepetitions config) 1,
               unstakeRepetitions = numberOr (stored_unstakeRepetitions config) 1,
               claimRepetitions = numberOr (stored_claimRepetitions config) 1,
               wethStakeRange_min = numberOr (stored_wethStakeRange_min config) (1 / 100),
               wethStakeRange_max = numberOr (stored_wethStakeRange_max config) (2 / 100),
               exethUnstakeRange_min = numberOr (stored_exethUnstakeRange_min config) (1 / 100),
               exethUnstakeRange_max = numberOr (stored_exethUnstakeRange_max config) (2 / 100),
               loopHours = numberOr (stored_loopHours config) 24\<rparr>\<rparr>)"

primrec splitOn :: "char \<Rightarrow> string \<Rightarrow> string list" where
  \<comment> \<open>\<open>data.split(c)\<close>\<close>
  "splitOn c [] = [[]]"
| "splitOn c (x # xs) =
     (if x = c then [] # splitOn c xs
      else case splitOn c xs of [] \<Rightarrow> [[x]] | l # ls \<Rightarrow> (x # l) # ls)"

definition isSpace :: "char \<Rightarrow> bool" where
  \<comment> \<open>the white space and line terminators \<open>trim\<close> removes, among the code units below
      256 that a \<open>char\<close> stands for: the other Unicode spaces, U+FEFF, U+2028 and U+2029
      are not in the type\<close>
  "isSpace c =
     (c \<in> set [CHR '' '', CHR 0x09, CHR 0x0A, CHR 0x0B, CHR 0x0C, CHR 0x0D, CHR 0xA0])"

definition trim :: "string \<Rightarrow> string" where
  "trim s = rev (dropWhile isSpace (rev (dropWhile isSpace s)))"

definition nonEmptyLines :: "string \<Rightarrow> string list" where
  \<comment> \<open>\<open>data.split("\n").map(line => line.trim()).filter(line => line)\<close>\<close>
  "nonEmptyLines data = filter (\<lambda>line. line \<noteq> []) (map trim (splitOn (CHR 0x0A) data))"

definition loadAccounts :: "string rpc \<Rightarrow> unit action" where
  \<comment> \<open>\<open>pkFile\<close>: what reading \<open>pk.txt\<close> gives, its text or the error's message\<close>
  "loadAccounts pkFile =
     tryCatch
       (andThen (await pkFile) (\<lambda>data.
        andThen (exec (\<lambda>s. s\<lparr>accounts := nonEmptyLines data\<rparr>)) (\<lambda>_.
        (\<lambda>s. if length (accounts s) = 0 then throw NoPrivateKeys s
             else exec (addLog (''Loaded '' @ showNat (length (accounts s)) @
                                '' accounts from pk.txt'') LogSuccess) s))))
       (\<lambda>error.
        andThen (exec (addLog (''Failed to load accounts: '' @ message error) LogError)) (\<lambda>_.
        exec (\<lambda>s. s\<lparr>accounts := []\<rparr>)))"

definition loadProxies :: "string rpc option \<Rightarrow> unit action" where
  \<comment> \<open>\<open>proxyFile\<close>: nothing when \<open>proxy.txt\<close> does not exist\<close>
  "loadProxies proxyFile =
     tryCatch
       (case proxyFile of
          None \<Rightarrow> exec (addLog ''No proxy.txt found, running without proxy.'' LogInfo)
        | Some file \<Rightarrow>
            andThen (await file) (\<lambda>data.
            andThen (exec (\<lambda>s. s\<lparr>proxies := nonEmptyLines data\<rparr>)) (\<lambda>_.
            (\<lambda>s. if length (proxies s) = 0 then throw NoProxies s
                 else exec (addLog (''Loaded '' @ showNat (length (proxies s)) @
                                    '' proxies from proxy.txt'') LogSuccess) s))))
       (\<lambda>error.
        andThen (exec (addLog (''Failed to load proxy: '' @ message error) LogInfo)) (\<lambda>_.
        exec (\<lambda>s. s\<lparr>proxies := []\<rparr>)))"

record startup_files =
  configJson :: configFile
  pkTxt :: "string rpc"
  proxyTxt :: "string rpc option"
  firstRefresh :: "(nat \<times> string) list"

definition initialize :: "startup_files \<Rightarrow> unit action" where
  "initialize files =
     tryCatch
       (andThen (exec (loadConfig (configJson files))) (\<lambda>_.
        andThen (loadAccounts (pkTxt files)) (\<lambda>_.
        andThen (loadProxies (proxyTxt files)) (\<lambda>_.
        updateWallets (firstRefresh files)))))
       (\<lambda>error. exec (addLog (''Initialization error: '' @ message error) LogError))"

definition initialState :: bot_state where
  \<comment> \<open>the module's variables as declared\<close>
  "initialState =
     \<lparr>transactionLogs = [], activityRunning = False, isCycleRunning = False, shouldStop = False,
      dailyActivityInterval = None, accounts = [], proxies = [], nonceTracker = Map.empty,
      hasLoggedSleepInterrupt = False, activeProcesses = 0,
      dailyActivityConfig =
        \<lparr>stakeRepetitions = 1, unstakeRepetitions = 1, claimRepetitions = 1,
         wethStakeRange_min = toDouble (1 / 100), wethStakeRange_max = toDouble (2 / 100),
         exethUnstakeRange_min = toDouble (1 / 100), exethUnstakeRange_max = toDouble (2 / 100),
         loopHours = 24\<rparr>,
      stopCheckPending = False, trace = []\<rparr>"

section \<open>Sample inputs\<close>

text \<open>
  Concrete inputs for the worked examples: a library that accepts 42-character
  \<open>0x\<close> strings as addresses and knows two private keys, a chain on which every call
  succeeds, and a two-wallet cycle.
\<close>

definition sampleLib :: ethers where
  "sampleLib =
     \<lparr>isAddress = (\<lambda>a. length a = 42 \<and> take 2 a = ''0x''),
      walletOf = (\<lambda>k. if k = ''key-1'' then Inr ''0x52908400098527886E0F7030069857D2E4169EE7''
                      else if k = ''key-2'' then Inr ''0xde709f2102306220921060314715629080e2fb77''
                      else Inl ''invalid private key''),
      outOfBounds = (\<lambda>v. ''value out-of-bounds'')\<rparr>"

definition sampleWallet :: string where
  "sampleWallet = ''0x52908400098527886E0F7030069857D2E4169EE7''"

definition sampleFeeData :: FeeData where
  "sampleFeeData =
     \<lparr>fd_gasPrice = Some 2000000000, fd_maxFeePerGas = None, fd_maxPriorityFeePerGas = None\<rparr>"

definition sampleApproval :: approve_io where
  "sampleApproval =
     \<lparr>ap_allowance = Inr 0, ap_feeData = Inr sampleFeeData, ap_pendingCount = Inr 7,
      ap_sendResult = Inr \<lparr>tx_hash = ''0x1111111111111111'', tx_wait = Receipt 1\<rparr>\<rparr>"

definition sampleChain :: chain_io where
  "sampleChain =
     \<lparr>io_providerError = None, io_tokenBalance = Inr (10 ^ 16), io_approval = sampleApproval,
      io_withdrawCount = Inr 1, io_createdAt = Inr 100, io_coolDownPeriod = Inr 50,
      io_latestTimestamp = Inr 150, io_feeData = Inr sampleFeeData, io_ethBalance = Inr (10 ^ 18),
      io_pendingCount = Inr 8,
      io_sendResult = Inr \<lparr>tx_hash = ''0x2222222222222222'', tx_wait = Receipt 1\<rparr>\<rparr>"

definition sampleRequest :: "int \<Rightarrow> TxRequest" where
  "sampleRequest nonce =
     \<lparr>tx_to = STAKE_CONTRACT_ADDRESS, tx_data = DepositToken WETH_ADDRESS (10 ^ 16), tx_value = 0,
      tx_fee = LegacyFee 2000000000, tx_gasLimit = 650000, tx_nonce = nonce\<rparr>"

definition sampleCycle :: cycle_io where
  "sampleCycle =
     \<lparr>chainAt = (\<lambda>accountIndex operation repetition. sampleChain),
      refreshAt = (\<lambda>accountIndex operation repetition. []),
      randomAt = (\<lambda>accountIndex operation repetition. 1 / 2),
      delayAt = (\<lambda>accountIndex p. 1 / 2),
      stopAt = (\<lambda>accountIndex p. False)\<rparr>"

definition sampleAmount :: decimal4 where
  "sampleAmount = \<lparr>negative = False, scaled = 100\<rparr>"

definition twoWalletStart :: bot_state where
  "twoWalletStart =
     initialState
       \<lparr>accounts := [''key-1'', ''key-2''],
        dailyActivityConfig :=
          \<lparr>stakeRepetitions = 1, unstakeRepetitions = 0, claimRepetitions = 0,
           wethStakeRange_min = toDouble (1 / 100), wethStakeRange_max = toDouble (1 / 100),
           exethUnstakeRange_min = toDouble (1 / 100), exethUnstakeRange_max = toDouble (2 / 100),
           loopHours = 24\<rparr>\<rparr>"

definition emptyWalletCycle :: cycle_io where
  \<comment> \<open>as \<open>sampleCycle\<close>, but the first wallet holds no WETH\<close>
  "emptyWalletCycle =
     sampleCycle
       \<lparr>chainAt := (\<lambda>accountIndex operation repetition.
                     if accountIndex = 0 then sampleChain\<lparr>io_tokenBalance := Inr 0\<rparr>
                     else sampleChain)\<rparr>"

section \<open>Notions for the proofs\<close>

text \<open>
  \<open>quiet\<close> forgets what an operation may change: the log, the nonce tracker and the
  requests sent. \<open>keeps f m\<close>: the action \<open>m\<close> leaves \<open>f\<close> of the state as it was;
  \<open>settles m\<close>: \<open>m\<close> always throws or returns. \<open>raisedBySending\<close> holds of the errors the
  nonce reservation, the broadcast and the confirmation can raise, \<open>raisedAfterChecks\<close> of
  those an operation can raise once its own checks have passed.
\<close>

fun notSent :: "event \<Rightarrow> bool" where
  "notSent (Sent sender request) = False"
| "notSent e = True"

definition quiet :: "bot_state \<Rightarrow> bot_state" where
  "quiet s = s\<lparr>transactionLogs := [], nonceTracker := Map.empty, trace := filter notSent (trace s)\<rparr>"

definition keeps :: "(bot_state \<Rightarrow> 'v) \<Rightarrow> 'a action \<Rightarrow> bool" where
  "keeps f m = (\<forall>s. f (snd (m s)) = f s)"

definition settles :: "'a action \<Rightarrow> bool" where
  "settles m = (\<forall>s. fst (m s) \<noteq> NeverSettles)"

fun raisedBySending :: "error \<Rightarrow> bool" where
  "raisedBySending (Rejected m) = True"
| "raisedBySending ProcessStopped = True"
| "raisedBySending InvalidWalletAddress = True"
| "raisedBySending TransactionReverted = True"
| "raisedBySending ConfirmationTimedOut = True"
| "raisedBySending e = False"

fun raisedAfterChecks :: "error \<Rightarrow> bool" where
  "raisedAfterChecks (InsufficientGas balance cost) = True"
| "raisedAfterChecks (TypeError m) = True"
| "raisedAfterChecks ApproveReverted = True"
| "raisedAfterChecks e = raisedBySending e"

definition approvalSettles :: "chain_io \<Rightarrow> bool" where
  \<comment> \<open>the approval transaction, if one is broadcast, is mined or its wait is rejected\<close>
  "approvalSettles io =
     (case ap_sendResult (io_approval io) of
        Inl m \<Rightarrow> True
      | Inr tx \<Rightarrow> tx_wait tx \<noteq> StillPending)"

definition storedCounts :: "rat \<Rightarrow> StoredConfig" where
  "storedCounts v =
     \<lparr>stored_stakeRepetitions = Some v, stored_unstakeRepetitions = Some v,
      stored_claimRepetitions = Some v, stored_wethStakeRange_min = None,
      stored_wethStakeRange_max = None, stored_exethUnstakeRange_min = None,
      stored_exethUnstakeRange_max = None, stored_loopHours = None\<rparr>"

section \<open>Basic facts\<close>

lemmas action_defs = ret_def throw_def andThen_def tryCatch_def await_def exec_def

lemma getFeeParams_pure:
  "getFeeParams r s =
     (Returned (case r of
                  Inl m \<Rightarrow> LegacyFee oneGwei
                | Inr fd \<Rightarrow>
                    if truthy (fd_maxFeePerGas fd) \<and> truthy (fd_maxPriorityFeePerGas fd)
                    then DynamicFee (orElse (fd_maxFeePerGas fd) 0)
                           (orElse (fd_maxPriorityFeePerGas fd) 0)
                    else LegacyFee (orElse (fd_gasPrice fd) oneGwei)), s)"
  by (simp add: getFeeParams_def action_defs addLog_def isDebug_def split: sum.splits)

section \<open>The nonce tracker\<close>

text \<open>
  A second reservation for the same key returns the first value plus one, provided the
  first value is not zero and the chain's pending count has not passed it.
\<close>

lemma getNextNonce_second_call:
  assumes "getNextNonce lib (Inr p) a c s = (Returned n, s')"
      and "n \<noteq> 0" and "int p' \<le> n + 1"
  shows "fst (getNextNonce lib (Inr p') a c s') = Returned (n + 1)"
  using assms
  by (auto simp: getNextNonce_def action_defs addLog_def isDebug_def Let_def
      split: if_splits option.splits)

text \<open>
  Claim C1. Two sequential reservations for one wallet and network, with no eviction
  between them, should return values that differ by exactly one. On a fresh tracker
  with a pending count of 0 at both calls the code returns 0 twice: the stored \<open>0n\<close> is
  falsy in \<open>nonceTracker[nonceKey] || (pendingNonce - 1n)\<close>, so the second call does not
  see the first reservation.
\<close>

theorem getNextNonce_repeats_nonce_zero:
  "fst (getNextNonce sampleLib (Inr 0) sampleWallet HOLESKY_CHAIN_ID initialState) = Returned 0 \<and>
   fst (getNextNonce sampleLib (Inr 0) sampleWallet HOLESKY_CHAIN_ID
          (snd (getNextNonce sampleLib (Inr 0) sampleWallet HOLESKY_CHAIN_ID initialState)))
     = Returned 0"
  by (simp add: getNextNonce_def action_defs sampleLib_def sampleWallet_def initialState_def
        addLog_def isDebug_def Let_def)

text \<open>
  The broadcast of the main transaction. When it is rejected, the error reaches the
  caller unchanged; the tracker entry of the (network, address) key is deleted when the
  error's message contains \<open>nonce\<close>, and stays as the reservation left it otherwise.
  The block is the same in all five operations (\<open>label\<close> is the word it logs).
\<close>

theorem broadcast_failure_evicts_on_nonce_error:
  assumes "getNextNonce lib (io_pendingCount io) address chainId s = (Returned nonce, s1)"
      and "io_sendResult io = Inl m"
  shows "fst (broadcast lib io label walletAddress address chainId request s) = Threw (Rejected m) \<and>
         nonceTracker (snd (broadcast lib io label walletAddress address chainId request s)) =
           (if includesText m ''nonce''
            then (nonceTracker s1)(nonceKeyOf chainId address := None)
            else nonceTracker s1)"
  using assms
  by (simp add: broadcast_def sendTransaction_def action_defs emit_def addLog_def)

lemma sampleWallet_lower:
  "toLowerCase sampleWallet = ''0x52908400098527886e0f7030069857d2e4169ee7''"
  by (simp add: toLowerCase_def sampleWallet_def)

theorem broadcast_failure_witness:
  "fst (broadcast sampleLib (sampleChain\<lparr>io_sendResult := Inl ''nonce too low''\<rparr>) ''Stake''
          sampleWallet (toLowerCase sampleWallet) HOLESKY_CHAIN_ID sampleRequest initialState)
     = Threw (Rejected ''nonce too low'') \<and>
   nonceTracker (snd (broadcast sampleLib (sampleChain\<lparr>io_sendResult := Inl ''nonce too low''\<rparr>)
          ''Stake'' sampleWallet (toLowerCase sampleWallet) HOLESKY_CHAIN_ID sampleRequest
          initialState)) (nonceKeyOf HOLESKY_CHAIN_ID (toLowerCase sampleWallet)) = None \<and>
   fst (broadcast sampleLib (sampleChain\<lparr>io_sendResult := Inl ''insufficient funds''\<rparr>) ''Stake''
          sampleWallet (toLowerCase sampleWallet) HOLESKY_CHAIN_ID sampleRequest initialState)
     = Threw (Rejected ''insufficient funds'') \<and>
   nonceTracker (snd (broadcast sampleLib (sampleChain\<lparr>io_sendResult := Inl ''insufficient funds''\<rparr>)
          ''Stake'' sampleWallet (toLowerCase sampleWallet) HOLESKY_CHAIN_ID sampleRequest
          initialState)) (nonceKeyOf HOLESKY_CHAIN_ID (toLowerCase sampleWallet)) = Some 8"
proof -
  let ?s1 = "snd (getNextNonce sampleLib (Inr 8) (toLowerCase sampleWallet) HOLESKY_CHAIN_ID initialState)"
  have reserve: "\<And>m. getNextNonce sampleLib (io_pendingCount (sampleChain\<lparr>io_sendResult := Inl m\<rparr>))
          (toLowerCase sampleWallet) HOLESKY_CHAIN_ID initialState = (Returned 8, ?s1)"
    by (simp add: getNextNonce_def action_defs sampleLib_def sampleWallet_lower sampleChain_def
          initialState_def addLog_def isDebug_def Let_def)
  have rejected: "\<And>m. io_sendResult (sampleChain\<lparr>io_sendResult := Inl m\<rparr>) = Inl m"
    by simp
  have tracked: "nonceTracker ?s1 (nonceKeyOf HOLESKY_CHAIN_ID (toLowerCase sampleWallet)) = Some 8"
    by (simp add: getNextNonce_def action_defs sampleLib_def sampleWallet_lower initialState_def
          addLog_def isDebug_def Let_def)
  have yes: "includesText ''nonce too low'' ''nonce''"
    by (simp add: includesText_def sublist_Cons_right)
  have no: "\<not> includesText ''insufficient funds'' ''nonce''"
    by (simp add: includesText_def sublist_Cons_right)
  show ?thesis
    using broadcast_failure_evicts_on_nonce_error [OF reserve rejected, of "''nonce too low''" "''Stake''" sampleWallet sampleRequest]
          broadcast_failure_evicts_on_nonce_error [OF reserve rejected, of "''insufficient funds''" "''Stake''" sampleWallet sampleRequest]
          tracked yes no
    by simp
qed

text \<open>
  Claim C4. \<open>approveToken\<close> passes no request to the wallet when the allowance read is
  at least the amount, and returns at once. When the allowance is below the amount and
  the nonce can be reserved (no stop requested, a valid address, the pending count
  answered), it passes exactly one request: \<open>approve(spender, amount)\<close> for the
  requested amount, with gas limit 100000. It never passes more than one.
\<close>

theorem approveToken_sends_only_when_needed:
  "(ap_allowance io = Inr allowance \<and> int allowance \<ge> amountWei \<longrightarrow>
      fst (approveToken lib io walletAddress tokenAddress spender amountWei s) = Returned () \<and>
      trace (snd (approveToken lib io walletAddress tokenAddress spender amountWei s)) = trace s) \<and>
   (ap_allowance io = Inr allowance \<and> int allowance < amountWei \<and> amountWei < 2 ^ 256 \<and>
    \<not> shouldStop s \<and> isAddress lib walletAddress \<and> ap_pendingCount io = Inr pending \<longrightarrow>
      (\<exists>fee nonce.
         trace (snd (approveToken lib io walletAddress tokenAddress spender amountWei s)) =
           trace s @ [Sent walletAddress
                        \<lparr>tx_to = tokenAddress, tx_data = Approve spender amountWei, tx_value = 0,
                         tx_fee = fee, tx_gasLimit = 100000, tx_nonce = nonce\<rparr>])) \<and>
   length (trace (snd (approveToken lib io walletAddress tokenAddress spender amountWei s)))
     \<le> length (trace s) + 1"
  by (auto simp: approveToken_def getFeeParams_pure getNextNonce_def sendTransaction_def
        encodeUint256_def waitForReceipt_def action_defs emit_def addLog_def isDebug_def Let_def
      split: sum.splits waitResult.splits)

theorem approveToken_witness:
  "trace (snd (approveToken sampleLib (sampleApproval\<lparr>ap_allowance := Inr (10 ^ 16)\<rparr>) sampleWallet
                 WETH_ADDRESS STAKE_CONTRACT_ADDRESS (10 ^ 16) initialState)) = [] \<and>
   (\<exists>fee nonce.
      trace (snd (approveToken sampleLib sampleApproval sampleWallet WETH_ADDRESS
                    STAKE_CONTRACT_ADDRESS (10 ^ 16) initialState)) =
        [Sent sampleWallet
           \<lparr>tx_to = WETH_ADDRESS, tx_data = Approve STAKE_CONTRACT_ADDRESS (10 ^ 16), tx_value = 0,
            tx_fee = fee, tx_gasLimit = 100000, tx_nonce = nonce\<rparr>])"
proof -
  have enough: "ap_allowance (sampleApproval\<lparr>ap_allowance := Inr (10 ^ 16)\<rparr>) = Inr (10 ^ 16) \<and>
      int (10 ^ 16) \<ge> (10 ^ 16 :: int)"
    by simp
  have short: "ap_allowance sampleApproval = Inr 0 \<and> int 0 < (10 ^ 16 :: int) \<and>
      (10 ^ 16 :: int) < 2 ^ 256 \<and> \<not> shouldStop initialState \<and>
      isAddress sampleLib sampleWallet \<and> ap_pendingCount sampleApproval = Inr 7"
    by (simp add: sampleApproval_def initialState_def sampleLib_def sampleWallet_def)
  have start: "trace initialState = []"
    by (simp add: initialState_def)
  show ?thesis
    using approveToken_sends_only_when_needed
            [where io = "sampleApproval\<lparr>ap_allowance := Inr (10 ^ 16)\<rparr>" and allowance = "10 ^ 16"
               and amountWei = "10 ^ 16" and lib = sampleLib and walletAddress = sampleWallet
               and tokenAddress = WETH_ADDRESS and spender = STAKE_CONTRACT_ADDRESS
               and s = initialState]
          approveToken_sends_only_when_needed
            [where io = sampleApproval and allowance = 0 and amountWei = "10 ^ 16"
               and lib = sampleLib and walletAddress = sampleWallet and pending = 7
               and tokenAddress = WETH_ADDRESS and spender = STAKE_CONTRACT_ADDRESS
               and s = initialState]
          enough short start
    by simp
qed

text \<open>
  Claim C5, as amended. \<open>getFeeParams\<close> never throws. It returns the dynamic (type 2)
  parameters when the fee data reports both \<open>maxFeePerGas\<close> and
  \<open>maxPriorityFeePerGas\<close> as non-zero values; when either is missing or zero it returns
  legacy (type 0) parameters with the reported \<open>gasPrice\<close>, or 1 gwei when that is
  missing or zero; when the query fails it returns the 1-gwei legacy default.
\<close>

theorem getFeeParams_never_throws:
  "(\<exists>p. getFeeParams r s = (Returned p, s)) \<and>
   (r = Inl m \<longrightarrow> getFeeParams r s = (Returned (LegacyFee oneGwei), s)) \<and>
   (r = Inr fd \<and> fd_maxFeePerGas fd = Some a \<and> a \<noteq> 0 \<and>
    fd_maxPriorityFeePerGas fd = Some b \<and> b \<noteq> 0 \<longrightarrow>
      getFeeParams r s = (Returned (DynamicFee a b), s)) \<and>
   (r = Inr fd \<and>
    (fd_maxFeePerGas fd \<in> {None, Some 0} \<or> fd_maxPriorityFeePerGas fd \<in> {None, Some 0}) \<longrightarrow>
      getFeeParams r s =
        (Returned (LegacyFee (case fd_gasPrice fd of
                                None \<Rightarrow> oneGwei
                              | Some g \<Rightarrow> if g = 0 then oneGwei else g)), s))"
  by (auto simp: getFeeParams_pure truthy_def orElse_def split: sum.splits option.splits)

theorem getFeeParams_witness:
  "getFeeParams (Inl ''timeout'') initialState = (Returned (LegacyFee 1000000000), initialState) \<and>
   getFeeParams (Inr \<lparr>fd_gasPrice = Some 3, fd_maxFeePerGas = Some 5,
                      fd_maxPriorityFeePerGas = Some 2\<rparr>) initialState
     = (Returned (DynamicFee 5 2), initialState) \<and>
   getFeeParams (Inr \<lparr>fd_gasPrice = Some 3, fd_maxFeePerGas = None,
                      fd_maxPriorityFeePerGas = None\<rparr>) initialState
     = (Returned (LegacyFee 3), initialState) \<and>
   getFeeParams (Inr \<lparr>fd_gasPrice = None, fd_maxFeePerGas = Some 5,
                      fd_maxPriorityFeePerGas = None\<rparr>) initialState
     = (Returned (LegacyFee 1000000000), initialState)"
  using getFeeParams_never_throws [where r = "Inl ''timeout''" and s = initialState and m = "''timeout''"]
        getFeeParams_never_throws
          [where r = "Inr \<lparr>fd_gasPrice = Some 3, fd_maxFeePerGas = Some 5, fd_maxPriorityFeePerGas = Some 2\<rparr>"
             and s = initialState and a = 5 and b = 2
             and fd = "\<lparr>fd_gasPrice = Some 3, fd_maxFeePerGas = Some 5, fd_maxPriorityFeePerGas = Some 2\<rparr>"]
        getFeeParams_never_throws
          [where r = "Inr \<lparr>fd_gasPrice = Some 3, fd_maxFeePerGas = None, fd_maxPriorityFeePerGas = None\<rparr>"
             and s = initialState
             and fd = "\<lparr>fd_gasPrice = Some 3, fd_maxFeePerGas = None, fd_maxPriorityFeePerGas = None\<rparr>"]
        getFeeParams_never_throws
          [where r = "Inr \<lparr>fd_gasPrice = None, fd_maxFeePerGas = Some 5, fd_maxPriorityFeePerGas = None\<rparr>"
             and s = initialState
             and fd = "\<lparr>fd_gasPrice = None, fd_maxFeePerGas = Some 5, fd_maxPriorityFeePerGas = None\<rparr>"]
  by (simp add: oneGwei_def)

text \<open>
  The claim as stated fails where a fee is reported as zero: with \<open>maxFeePerGas = 5\<close>
  and \<open>maxPriorityFeePerGas = 0\<close> both are reported, and the result is legacy.
\<close>

theorem getFeeParams_zero_priority_fee_is_legacy:
  "fst (getFeeParams (Inr \<lparr>fd_gasPrice = Some 3, fd_maxFeePerGas = Some 5,
                           fd_maxPriorityFeePerGas = Some 0\<rparr>) initialState)
     = Returned (LegacyFee 3)"
  by (simp add: getFeeParams_pure truthy_def orElse_def)






text \<open>
  What the amended claim leaves open the script does not guard either: a stored 2.5 loads
  as 2.5, a stored -3 as -3, and a stored \<open>2^53 + 1\<close> as \<open>2^53\<close>.
\<close>

lemma loadConfig_other_counts:
  "stakeRepetitions (dailyActivityConfig (loadConfig (Parsed (storedCounts (5 / 2))) initialState))
     = 5 / 2 \<and>
   stakeRepetitions (dailyActivityConfig (loadConfig (Parsed (storedCounts (- 3))) initialState))
     = - 3 \<and>
   stakeRepetitions (dailyActivityConfig (loadConfig (Parsed (storedCounts 9007199254740993))
     initialState)) = 9007199254740992"
proof -
  have "toDouble (5 / 2) = 5 / 2" "toDouble (- 3) = - 3"
       "toDouble 9007199254740993 = 9007199254740992"
    by code_simp+
  then show ?thesis
    by (simp add: loadConfig_def numberOr_def storedCounts_def)
qed

section \<open>Start-up without credentials\<close>

lemma loadAccounts_returns: "\<exists>s'. loadAccounts pk s = (Returned (), s')"
  by (cases pk) (simp_all add: loadAccounts_def action_defs)

lemma loadProxies_returns: "\<exists>s'. loadProxies px s = (Returned (), s')"
proof (cases px)
  case None
  then show ?thesis by (simp add: loadProxies_def action_defs)
next
  case (Some f)
  then show ?thesis by (cases f) (simp_all add: loadProxies_def action_defs)
qed

lemma updateWallets_returns: "\<exists>s'. updateWallets fs s = (Returned (), s')"
  by (simp add: updateWallets_def action_defs)

lemma initialize_returns: "\<exists>s'. initialize files s = (Returned (), s')"
proof -
  obtain s1 where a: "loadAccounts (pkTxt files) (loadConfig (configJson files) s) = (Returned (), s1)"
    using loadAccounts_returns by blast
  obtain s2 where b: "loadProxies (proxyTxt files) s1 = (Returned (), s2)"
    using loadProxies_returns by blast
  obtain s3 where c: "updateWallets (firstRefresh files) s2 = (Returned (), s3)"
    using updateWallets_returns by blast
  show ?thesis
    using a b c by (simp add: initialize_def action_defs)
qed

text \<open>
  Claim C9, as amended. Finding no credentials is not fatal: when \<open>pk.txt\<close> cannot be
  read or holds no non-blank line, \<open>loadAccounts\<close> logs the failure, leaves the account
  list empty and returns; \<open>initialize\<close> always returns; and a daily cycle started with an
  empty account list logs \<open>No valid accounts found.\<close> and returns without processing
  any wallet.
\<close>

theorem loadAccounts_survives_missing_keys:
  "(pk = Inl m \<or> (pk = Inr data \<and> nonEmptyLines data = []) \<longrightarrow>
      loadAccounts pk s =
        (Returned (),
         (addLog (''Failed to load accounts: '' @
                  (case pk of Inl m \<Rightarrow> m | Inr d \<Rightarrow> ''No private keys found in pk.txt''))
            LogError s)\<lparr>accounts := []\<rparr>)) \<and>
   (\<exists>s'. initialize files s = (Returned (), s')) \<and>
   (accounts s = [] \<longrightarrow>
      runDailyActivity lib io s = (Returned (), addLog ''No valid accounts found.'' LogError s))"
proof (intro conjI impI)
  assume "pk = Inl m \<or> (pk = Inr data \<and> nonEmptyLines data = [])"
  then show "loadAccounts pk s =
        (Returned (),
         (addLog (''Failed to load accounts: '' @
                  (case pk of Inl m \<Rightarrow> m | Inr d \<Rightarrow> ''No private keys found in pk.txt''))
            LogError s)\<lparr>accounts := []\<rparr>)"
    by (auto simp: loadAccounts_def action_defs addLog_def isDebug_def)
next
  show "\<exists>s'. initialize files s = (Returned (), s')"
    by (rule initialize_returns)
next
  assume "accounts s = []"
  then show "runDailyActivity lib io s = (Returned (), addLog ''No valid accounts found.'' LogError s)"
    by (simp add: runDailyActivity_def action_defs)
qed

theorem loadAccounts_witness:
  "loadAccounts (Inl ''ENOENT: no such file or directory, open pk.txt'') initialState =
     (Returned (),
      initialState\<lparr>transactionLogs :=
        [(LogError, ''Failed to load accounts: ENOENT: no such file or directory, open pk.txt'')]\<rparr>) \<and>
   loadAccounts (Inr [CHR '' '', CHR 0x0A, CHR 0x0D, CHR 0x0A]) initialState =
     (Returned (),
      initialState\<lparr>transactionLogs :=
        [(LogError, ''Failed to load accounts: No private keys found in pk.txt'')]\<rparr>) \<and>
   runDailyActivity sampleLib sampleCycle initialState =
     (Returned (), initialState\<lparr>transactionLogs := [(LogError, ''No valid accounts found.'')]\<rparr>)"
proof -
  have blank: "nonEmptyLines [CHR '' '', CHR 0x0A, CHR 0x0D, CHR 0x0A] = []"
    by (simp add: nonEmptyLines_def trim_def isSpace_def)
  have none: "accounts initialState = []"
    by (simp add: initialState_def)
  show ?thesis
    using loadAccounts_survives_missing_keys
            [where pk = "Inl ''ENOENT: no such file or directory, open pk.txt''"
               and m = "''ENOENT: no such file or directory, open pk.txt''" and s = initialState]
          loadAccounts_survives_missing_keys
            [where pk = "Inr [CHR '' '', CHR 0x0A, CHR 0x0D, CHR 0x0A]"
               and data = "[CHR '' '', CHR 0x0A, CHR 0x0D, CHR 0x0A]" and s = initialState
               and lib = sampleLib and io = sampleCycle]
          blank none
    by (simp add: addLog_def initialState_def)
qed

text \<open>
  The claim as stated fails on an empty \<open>pk.txt\<close>: the error is logged, the remaining
  start-up steps run, and initialization returns.
\<close>

theorem initialize_survives_empty_pk:
  "initialize \<lparr>configJson = NoConfigFile, pkTxt = Inr [], proxyTxt = None, firstRefresh = []\<rparr>
     initialState =
   (Returned (),
    initialState\<lparr>transactionLogs :=
      [(LogInfo, ''No config file found, using default settings.''),
       (LogError, ''Failed to load accounts: No private keys found in pk.txt''),
       (LogInfo, ''No proxy.txt found, running without proxy.''),
       (LogSuccess, ''Wallet data updated.'')]\<rparr>)"
  by (simp add: initialize_def loadConfig_def loadAccounts_def loadProxies_def updateWallets_def
        nonEmptyLines_def trim_def action_defs addLog_def isDebug_def initialState_def)

section \<open>Unfolding the combinators\<close>

lemma andThen_unfold:
  "andThen m g s =
     (case fst (m s) of
        Returned v \<Rightarrow> g v (snd (m s))
      | Threw e \<Rightarrow> (Threw e, snd (m s))
      | NeverSettles \<Rightarrow> (NeverSettles, snd (m s)))"
  by (cases "m s"; cases "fst (m s)") (auto simp: andThen_def)

lemma tryCatch_unfold:
  "tryCatch m h s =
     (case fst (m s) of
        Threw e \<Rightarrow> h e (snd (m s))
      | Returned v \<Rightarrow> (Returned v, snd (m s))
      | NeverSettles \<Rightarrow> (NeverSettles, snd (m s)))"
  by (cases "m s"; cases "fst (m s)") (auto simp: tryCatch_def)

lemma tryFinally_returned:
  "fst (m s) = Returned v \<Longrightarrow> fst (c (snd (m s))) = Returned () \<Longrightarrow>
     tryFinally m c s = (Returned v, snd (c (snd (m s))))"
  by (cases "m s"; cases "c (snd (m s))") (auto simp: tryFinally_def)

lemma fst_Threw: "fst x = Threw e \<Longrightarrow> \<exists>s'. x = (Threw e, s')"
  by (cases x) simp

lemma fst_Returned: "fst x = Returned v \<Longrightarrow> x = (Returned v, snd x)"
  by (cases x) simp

section \<open>The errors an operation can raise\<close>

lemma getProvider_None [simp]: "getProvider None c = ret ()"
  by (simp add: getProvider_def)

lemma getProvider_Some [simp]:
  "fst (getProvider (Some m) c s) = Threw (ProviderInitFailed c)"
  by (simp add: getProvider_def action_defs)

lemma sending_after_checks: "raisedBySending e \<Longrightarrow> raisedAfterChecks e"
  by (cases e) simp_all

lemma getNextNonce_raises:
  "getNextNonce lib p a c s = (Threw e, s') \<Longrightarrow> raisedBySending e"
  by (auto simp: getNextNonce_def action_defs addLog_def Let_def split: if_splits sum.splits)

lemma broadcast_raises:
  "broadcast lib io label w a c request s = (Threw e, s') \<Longrightarrow> raisedBySending e"
  by (auto simp: broadcast_def sendTransaction_def action_defs emit_def addLog_def
      split: prod.splits outcome.splits sum.splits if_splits dest: getNextNonce_raises)

lemma confirm_raises:
  "confirm tx t s = (Threw e, s') \<Longrightarrow> raisedBySending e"
  by (auto simp: confirm_def raceTimeout_def action_defs addLog_def
      split: waitResult.splits if_splits)

lemma sending_raises:
  "andThen (broadcast lib io label w a c request) (\<lambda>tx. confirm tx t) s = (Threw e, s') \<Longrightarrow>
     raisedBySending e"
  by (auto simp: andThen_def split: prod.splits outcome.splits
      dest: broadcast_raises confirm_raises)

lemma submitTransaction_raises:
  "submitTransaction lib io label w a c gasLimit to txData t s = (Threw e, s') \<Longrightarrow>
     raisedAfterChecks e"
  by (auto simp: submitTransaction_def getFeeParams_pure estimatedGasCostOf_def action_defs
      split: prod.splits outcome.splits sum.splits if_splits FeeParams.splits
      dest: broadcast_raises confirm_raises intro: sending_after_checks)

lemma approveToken_raises:
  "approveToken lib io w token spender amountWei s = (Threw e, s') \<Longrightarrow> raisedAfterChecks e"
  by (auto simp: approveToken_def getFeeParams_pure sendTransaction_def waitForReceipt_def
        encodeUint256_def action_defs emit_def addLog_def Let_def
      split: prod.splits outcome.splits sum.splits if_splits waitResult.splits
      dest: getNextNonce_raises intro: sending_after_checks)

lemma approve_then_submit_raises:
  "andThen (approveToken lib aio w token spender amountWei)
     (\<lambda>_. submitTransaction lib io label w a c gasLimit to txData t) s = (Threw e, s') \<Longrightarrow>
     raisedAfterChecks e"
  by (auto simp: andThen_def split: prod.splits outcome.splits
      dest: approveToken_raises submitTransaction_raises)

lemma not_raised_after_checks [simp]:
  "\<not> raisedAfterChecks (InsufficientWETH b a)" "\<not> raisedAfterChecks (InsufficientEXETH b a)"
  "\<not> raisedAfterChecks (InsufficientETH b a)" "\<not> raisedAfterChecks (InsufficientAmountPlusGas b n)"
  "\<not> raisedAfterChecks NoOutstandingRequests" "\<not> raisedAfterChecks NotReadyToClaim"
  by simp_all

lemma not_raised_by_sending [simp]:
  "\<not> raisedBySending (InsufficientGas b c)" "\<not> raisedBySending (InsufficientETH b a)"
  "\<not> raisedBySending (InsufficientAmountPlusGas b n)"
  by simp_all

section \<open>Evaluating the sample inputs\<close>

lemmas eval_defs = performStake_def performUnstake_def performClaim_def performWrap_def performUnwrap_def
  submitTransaction_def approveToken_def broadcast_def confirm_def getNextNonce_def
  getFeeParams_pure estimatedGasCostOf_def sendTransaction_def waitForReceipt_def raceTimeout_def
  encodeUint256_def getProvider_def action_defs emit_def addLog_def isDebug_def Let_def
  truthy_def orElse_def oneGwei_def

lemmas sample_defs = sampleLib_def sampleChain_def sampleApproval_def sampleFeeData_def
  initialState_def sampleAmount_def directions_def HOLESKY_CHAIN_ID_def

lemma sampleAmount_wei: "parseEther sampleAmount = 10 ^ 16"
  by (simp add: parseEther_def sampleAmount_def)

lemma sample_stake_runs:
  "fst (performStake sampleLib sampleChain sampleWallet (hd directions) sampleAmount initialState)
     = Returned ()"
  by (simp add: eval_defs sample_defs sampleWallet_lower parseEther_def)
    (simp add: sampleWallet_def)

lemma sample_claim_trace:
  "trace (snd (performClaim sampleLib sampleChain sampleWallet (hd directions) initialState)) =
     [Started Claim sampleWallet None,
      Sent sampleWallet
        \<lparr>tx_to = CLAIM_CONTRACT_ADDRESS, tx_data = ClaimRequest 0 (toLowerCase sampleWallet),
         tx_value = 0, tx_fee = LegacyFee 2000000000, tx_gasLimit = 650000, tx_nonce = 8\<rparr>]"
  by (simp add: eval_defs sample_defs sampleWallet_lower)

section \<open>The approval's broadcast\<close>

text \<open>
  Claim C2. A broadcast that fails with an error whose text names the nonce should delete
  the tracker entry of its key. The block of the main transaction does
  (\<open>broadcast_failure_evicts_on_nonce_error\<close>); the approval that Stake and Unstake send
  first has no such handler. With an allowance of 0 and the approval's broadcast rejected
  as "nonce too low", Stake fails with that error and the entry the approval reserved,
  absent before, stays in the tracker.
\<close>

theorem approval_nonce_error_keeps_entry:
  "fst (performStake sampleLib
          (sampleChain\<lparr>io_approval := sampleApproval\<lparr>ap_sendResult := Inl ''nonce too low''\<rparr>\<rparr>)
          sampleWallet (hd directions) sampleAmount initialState)
     = Threw (Rejected ''nonce too low'') \<and>
   includesText ''nonce too low'' ''nonce'' \<and>
   nonceTracker initialState (nonceKeyOf HOLESKY_CHAIN_ID sampleWallet) = None \<and>
   nonceTracker (snd (performStake sampleLib
          (sampleChain\<lparr>io_approval := sampleApproval\<lparr>ap_sendResult := Inl ''nonce too low''\<rparr>\<rparr>)
          sampleWallet (hd directions) sampleAmount initialState))
     (nonceKeyOf HOLESKY_CHAIN_ID sampleWallet) = Some 7"
proof -
  have "includesText ''nonce too low'' ''nonce''"
    by (simp add: includesText_def sublist_Cons_right)
  then show ?thesis
    by (simp add: eval_defs sample_defs sampleWallet_lower parseEther_def)
      (simp add: sampleWallet_def)
qed

section \<open>The preconditions of a claim\<close>





section \<open>Balance checks\<close>

lemma performStake_balance_check:
  assumes "io_providerError io = None" and "0 \<le> parseEther amount" and "parseEther amount < 2 ^ 256"
      and "io_tokenBalance io = Inr balance"
  shows "fst (performStake lib io w d amount s) = Threw (InsufficientWETH balance amount)
           \<longleftrightarrow> int balance < parseEther amount"
proof (cases "int balance < parseEther amount")
  case True
  then show ?thesis
    using assms by (simp add: performStake_def encodeUint256_def action_defs Let_def)
next
  case False
  have "performStake lib io w d amount s =
          andThen (approveToken lib (io_approval io) w WETH_ADDRESS STAKE_CONTRACT_ADDRESS (parseEther amount))
            (\<lambda>_. submitTransaction lib io ''Stake'' w (toLowerCase w) (dir_chainId d) 650000
                    STAKE_CONTRACT_ADDRESS (DepositToken WETH_ADDRESS (parseEther amount))
                    (''Stake '' @ showAmount amount @ '' WETH for eXETH Successfully, Hash: ''))
            (emit (Started Stake w (Some amount)) s)"
    using assms False
    by (simp add: performStake_def encodeUint256_def ret_def throw_def await_def exec_def Let_def
          andThen_unfold)
  moreover have "\<not> raisedAfterChecks (InsufficientWETH balance amount)"
    by simp
  ultimately have "fst (performStake lib io w d amount s) \<noteq> Threw (InsufficientWETH balance amount)"
    using approve_then_submit_raises by (metis fst_Threw)
  then show ?thesis
    using False by simp
qed

lemma performUnstake_balance_check:
  assumes "io_providerError io = None" and "0 \<le> parseEther amount" and "parseEther amount < 2 ^ 256"
      and "io_tokenBalance io = Inr balance"
  shows "fst (performUnstake lib io w d amount s) = Threw (InsufficientEXETH balance amount)
           \<longleftrightarrow> int balance < parseEther amount"
proof (cases "int balance < parseEther amount")
  case True
  then show ?thesis
    using assms by (simp add: performUnstake_def encodeUint256_def action_defs Let_def)
next
  case False
  have "performUnstake lib io w d amount s =
          andThen (approveToken lib (io_approval io) w EXETH_ADDRESS UNSTAKE_CONTRACT_ADDRESS (parseEther amount))
            (\<lambda>_. submitTransaction lib io ''Unstake'' w (toLowerCase w) (dir_chainId d) 650000
                    UNSTAKE_CONTRACT_ADDRESS (WithdrawToken (parseEther amount) WETH_ADDRESS)
                    (''Unstake '' @ showAmount amount @ '' eXETH for WETH Successfully, Hash: ''))
            (emit (Started Unstake w (Some amount)) s)"
    using assms False
    by (simp add: performUnstake_def encodeUint256_def ret_def throw_def await_def exec_def Let_def
          andThen_unfold)
  moreover have "\<not> raisedAfterChecks (InsufficientEXETH balance amount)"
    by simp
  ultimately have "fst (performUnstake lib io w d amount s) \<noteq> Threw (InsufficientEXETH balance amount)"
    using approve_then_submit_raises by (metis fst_Threw)
  then show ?thesis
    using False by simp
qed

lemma performUnwrap_balance_check:
  assumes "io_providerError io = None" and "0 \<le> parseEther amount" and "parseEther amount < 2 ^ 256"
      and "io_tokenBalance io = Inr balance"
  shows "fst (performUnwrap lib io w d amount s) = Threw (InsufficientWETH balance amount)
           \<longleftrightarrow> int balance < parseEther amount"
proof (cases "int balance < parseEther amount")
  case True
  then show ?thesis
    using assms by (simp add: performUnwrap_def encodeUint256_def action_defs Let_def)
next
  case False
  have "performUnwrap lib io w d amount s =
          submitTransaction lib io ''Unwrap'' w (toLowerCase w) (dir_chainId d) 100000
            WETH_ADDRESS (UnwrapWithdraw (parseEther amount))
            (''Unwrap '' @ showAmount amount @ '' WETH to ETH Successfully, Hash: '')
            (emit (Started Unwrap w (Some amount)) s)"
    using assms False
    by (simp add: performUnwrap_def encodeUint256_def ret_def throw_def await_def exec_def Let_def
          andThen_unfold)
  moreover have "\<not> raisedAfterChecks (InsufficientWETH balance amount)"
    by simp
  ultimately have "fst (performUnwrap lib io w d amount s) \<noteq> Threw (InsufficientWETH balance amount)"
    using submitTransaction_raises by (metis fst_Threw)
  then show ?thesis
    using False by simp
qed

lemma cost_facts:
  assumes "getFeeParams r s0 = (Returned fee, s0')" and "estimatedGasCostOf fee g s1 = (Returned cost, s1')"
  shows "getFeeParams r s = (Returned fee, s)" and "estimatedGasCostOf fee g s = (Returned cost, s)"
  using assms
  by (auto simp: getFeeParams_pure estimatedGasCostOf_def action_defs split: FeeParams.splits if_splits)

lemma submitTransaction_gas_check:
  assumes "getFeeParams (io_feeData io) s0 = (Returned fee, s0')"
      and "estimatedGasCostOf fee gasLimit s1 = (Returned cost, s1')"
      and "io_ethBalance io = Inr balance"
  shows "fst (submitTransaction lib io label w a c gasLimit to txData t s)
           = Threw (InsufficientGas balance cost) \<longleftrightarrow> balance < cost"
proof (cases "balance < cost")
  case True
  then show ?thesis
    using assms(3) cost_facts [OF assms(1,2)]
    by (simp add: submitTransaction_def andThen_unfold await_def throw_def)
next
  case False
  have "submitTransaction lib io label w a c gasLimit to txData t s =
          andThen (broadcast lib io label w a c
                     (\<lambda>nonce. \<lparr>tx_to = to, tx_data = txData, tx_value = 0, tx_fee = fee,
                                tx_gasLimit = gasLimit, tx_nonce = nonce\<rparr>))
            (\<lambda>tx. confirm tx t) s"
    using assms(3) cost_facts [OF assms(1,2)] False
    by (simp add: submitTransaction_def andThen_unfold [of "getFeeParams _"]
          andThen_unfold [of "estimatedGasCostOf _ _"] andThen_unfold [of "await _"] await_def)
  moreover have "\<not> raisedBySending (InsufficientGas balance cost)"
    by simp
  ultimately have "fst (submitTransaction lib io label w a c gasLimit to txData t s)
                     \<noteq> Threw (InsufficientGas balance cost)"
    using sending_raises by (metis fst_Threw)
  then show ?thesis
    using False by simp
qed

lemma performWrap_balance_check:
  assumes "io_providerError io = None" and "io_ethBalance io = Inr balance"
      and "getFeeParams (io_feeData io) s0 = (Returned fee, s0')"
      and "estimatedGasCostOf fee 100000 s1 = (Returned cost, s1')"
  shows "fst (performWrap lib io w d amount s) \<in>
           {Threw (InsufficientETH balance amount),
            Threw (InsufficientAmountPlusGas balance (parseEther amount + int cost))}
         \<longleftrightarrow> int balance < parseEther amount + int cost"
proof -
  note cost = cost_facts [OF assms(3,4)]
  consider (low) "int balance < parseEther amount"
    | (mid) "\<not> int balance < parseEther amount" "int balance < parseEther amount + int cost"
    | (high) "\<not> int balance < parseEther amount + int cost"
    by linarith
  then show ?thesis
  proof cases
    case low
    then show ?thesis
      using assms(1,2) by (simp add: performWrap_def action_defs Let_def)
  next
    case mid
    then show ?thesis
      using assms(1,2) cost
      by (simp add: performWrap_def andThen_unfold await_def exec_def throw_def ret_def Let_def)
  next
    case high
    then have nl: "\<not> int balance < parseEther amount" by linarith
    have "performWrap lib io w d amount s =
            andThen (broadcast lib io ''Wrap'' w (toLowerCase w) (dir_chainId d)
                       (\<lambda>nonce. \<lparr>tx_to = WETH_ADDRESS, tx_data = WrapDeposit,
                                  tx_value = parseEther amount, tx_fee = fee, tx_gasLimit = 100000,
                                  tx_nonce = nonce\<rparr>))
              (\<lambda>tx. confirm tx (''Wrap '' @ showAmount amount @ '' ETH to WETH Successfully, Hash: ''))
              (emit (Started Wrap w (Some amount)) s)"
      using assms(1,2) cost high nl
      by (simp add: performWrap_def andThen_unfold [of "getFeeParams _"]
            andThen_unfold [of "estimatedGasCostOf _ _"] andThen_unfold [of "await _"]
            andThen_unfold [of "exec _"] andThen_unfold [of "ret _"]
            await_def exec_def ret_def Let_def)
    moreover have "\<not> raisedBySending (InsufficientETH balance amount)"
        "\<not> raisedBySending (InsufficientAmountPlusGas balance (parseEther amount + int cost))"
      by simp_all
    ultimately have "fst (performWrap lib io w d amount s) \<noteq> Threw (InsufficientETH balance amount)"
        "fst (performWrap lib io w d amount s) \<noteq>
           Threw (InsufficientAmountPlusGas balance (parseEther amount + int cost))"
      using sending_raises by (metis fst_Threw)+
    then show ?thesis
      using high by simp
  qed
qed

lemma estimatedGasCostOf_product:
  "fst (estimatedGasCostOf fee gasLimit s) = Returned cost \<Longrightarrow>
     cost = (case fee of LegacyFee g \<Rightarrow> g | DynamicFee m p \<Rightarrow> m) * gasLimit"
  by (auto simp: estimatedGasCostOf_def action_defs split: FeeParams.splits if_splits)

text \<open>
  Claim C6. With the provider available, the amount within \<open>uint256\<close> and the balances read:
  Stake and Unwrap fail with "Insufficient WETH balance", and Unstake with "Insufficient eXETH
  balance", exactly when the token balance is strictly below the amount in wei, so they pass
  the check at equality. Wrap fails one of its two balance checks ("Insufficient ETH balance",
  "Insufficient ETH for amount + gas") exactly when the native balance is strictly below the
  amount plus the estimated gas cost, which is the gas fee times the fixed gas limit 100000.
  The gas check shared by Stake, Unstake, Claim and Unwrap fails with "Insufficient ETH for
  gas" exactly when the native balance is strictly below the estimated gas cost.
\<close>

theorem balance_checks_inclusive:
  assumes "io_providerError io = None"
      and "0 \<le> parseEther amount" and "parseEther amount < 2 ^ 256"
      and "io_tokenBalance io = Inr tokenBalance" and "io_ethBalance io = Inr ethBalance"
      and "fst (getFeeParams (io_feeData io) s) = Returned fee"
      and "fst (estimatedGasCostOf fee 100000 s) = Returned wrapCost"
      and "fst (estimatedGasCostOf fee gasLimit s) = Returned cost"
  shows "(fst (performStake lib io w d amount s) = Threw (InsufficientWETH tokenBalance amount)
            \<longleftrightarrow> int tokenBalance < parseEther amount) \<and>
         (fst (performUnstake lib io w d amount s) = Threw (InsufficientEXETH tokenBalance amount)
            \<longleftrightarrow> int tokenBalance < parseEther amount) \<and>
         (fst (performUnwrap lib io w d amount s) = Threw (InsufficientWETH tokenBalance amount)
            \<longleftrightarrow> int tokenBalance < parseEther amount) \<and>
         (fst (performWrap lib io w d amount s) \<in>
            {Threw (InsufficientETH ethBalance amount),
             Threw (InsufficientAmountPlusGas ethBalance (parseEther amount + int wrapCost))}
            \<longleftrightarrow> int ethBalance < parseEther amount + int wrapCost) \<and>
         wrapCost = (case fee of LegacyFee g \<Rightarrow> g | DynamicFee m p \<Rightarrow> m) * 100000 \<and>
         (fst (submitTransaction lib io label w a c gasLimit to txData t s)
            = Threw (InsufficientGas ethBalance cost) \<longleftrightarrow> ethBalance < cost)"
proof -
  note fee = fst_Returned [OF assms(6)]
  note wrapCost = fst_Returned [OF assms(7)]
  note cost = fst_Returned [OF assms(8)]
  have stake: "fst (performStake lib io w d amount s) = Threw (InsufficientWETH tokenBalance amount)
            \<longleftrightarrow> int tokenBalance < parseEther amount"
    using performStake_balance_check [OF assms(1-4)] .
  have unstake: "fst (performUnstake lib io w d amount s) = Threw (InsufficientEXETH tokenBalance amount)
            \<longleftrightarrow> int tokenBalance < parseEther amount"
    using performUnstake_balance_check [OF assms(1-4)] .
  have unwrap: "fst (performUnwrap lib io w d amount s) = Threw (InsufficientWETH tokenBalance amount)
            \<longleftrightarrow> int tokenBalance < parseEther amount"
    using performUnwrap_balance_check [OF assms(1-4)] .
  have wrap: "fst (performWrap lib io w d amount s) \<in>
            {Threw (InsufficientETH ethBalance amount),
             Threw (InsufficientAmountPlusGas ethBalance (parseEther amount + int wrapCost))}
            \<longleftrightarrow> int ethBalance < parseEther amount + int wrapCost"
    using performWrap_balance_check [OF assms(1) assms(5) fee wrapCost] .
  have gas: "fst (submitTransaction lib io label w a c gasLimit to txData t s)
            = Threw (InsufficientGas ethBalance cost) \<longleftrightarrow> ethBalance < cost"
    using submitTransaction_gas_check [OF fee cost assms(5)] .
  show ?thesis
    using stake unstake unwrap wrap gas estimatedGasCostOf_product [OF assms(7)] by blast
qed

lemma sample_fee:
  "fst (getFeeParams (Inr sampleFeeData) s) = Returned (LegacyFee 2000000000)"
  by (simp add: getFeeParams_pure sampleFeeData_def truthy_def orElse_def)

lemma sample_cost:
  "fst (estimatedGasCostOf (LegacyFee 2000000000) 100000 s) = Returned 200000000000000"
  by (simp add: estimatedGasCostOf_def ret_def)

theorem balance_checks_witness:
  "fst (performStake sampleLib sampleChain sampleWallet (hd directions) sampleAmount initialState)
     \<noteq> Threw (InsufficientWETH 10000000000000000 sampleAmount) \<and>
   fst (performStake sampleLib (sampleChain\<lparr>io_tokenBalance := Inr 9999999999999999\<rparr>) sampleWallet
          (hd directions) sampleAmount initialState)
     = Threw (InsufficientWETH 9999999999999999 sampleAmount) \<and>
   fst (performWrap sampleLib (sampleChain\<lparr>io_ethBalance := Inr 10200000000000000\<rparr>) sampleWallet
          (hd directions) sampleAmount initialState)
     \<noteq> Threw (InsufficientAmountPlusGas 10200000000000000 10200000000000000) \<and>
   fst (performWrap sampleLib (sampleChain\<lparr>io_ethBalance := Inr 10199999999999999\<rparr>) sampleWallet
          (hd directions) sampleAmount initialState)
     \<in> {Threw (InsufficientETH 10199999999999999 sampleAmount),
         Threw (InsufficientAmountPlusGas 10199999999999999 10200000000000000)}"
  using balance_checks_inclusive [of sampleChain sampleAmount 10000000000000000 1000000000000000000
          initialState "LegacyFee 2000000000" 200000000000000 100000 200000000000000
          sampleLib sampleWallet "hd directions"]
        balance_checks_inclusive [of "sampleChain\<lparr>io_tokenBalance := Inr 9999999999999999\<rparr>"
          sampleAmount 9999999999999999 1000000000000000000
          initialState "LegacyFee 2000000000" 200000000000000 100000 200000000000000
          sampleLib sampleWallet "hd directions"]
        balance_checks_inclusive [of "sampleChain\<lparr>io_ethBalance := Inr 10200000000000000\<rparr>"
          sampleAmount 10000000000000000 10200000000000000
          initialState "LegacyFee 2000000000" 200000000000000 100000 200000000000000
          sampleLib sampleWallet "hd directions"]
        balance_checks_inclusive [of "sampleChain\<lparr>io_ethBalance := Inr 10199999999999999\<rparr>"
          sampleAmount 10000000000000000 10199999999999999
          initialState "LegacyFee 2000000000" 200000000000000 100000 200000000000000
          sampleLib sampleWallet "hd directions"]
        sample_fee sample_cost sampleAmount_wei
  by (simp add: sampleChain_def)

section \<open>Two tracker keys for one wallet\<close>

lemma performStake_success:
  assumes "performStake lib io w d amount s = (Returned (), s')"
  shows "\<exists>s2. approveToken lib (io_approval io) w WETH_ADDRESS STAKE_CONTRACT_ADDRESS
                 (parseEther amount) (emit (Started Stake w (Some amount)) s) = (Returned (), s2) \<and>
              submitTransaction lib io ''Stake'' w (toLowerCase w) (dir_chainId d) 650000
                 STAKE_CONTRACT_ADDRESS (DepositToken WETH_ADDRESS (parseEther amount))
                 (''Stake '' @ showAmount amount @ '' WETH for eXETH Successfully, Hash: '') s2
                = (Returned (), s')"
  using assms
  by (auto simp: performStake_def getProvider_def encodeUint256_def action_defs Let_def
      split: option.splits sum.splits if_splits prod.splits outcome.splits)

lemma performUnstake_success:
  assumes "performUnstake lib io w d amount s = (Returned (), s')"
  shows "\<exists>s2. approveToken lib (io_approval io) w EXETH_ADDRESS UNSTAKE_CONTRACT_ADDRESS
                 (parseEther amount) (emit (Started Unstake w (Some amount)) s) = (Returned (), s2) \<and>
              submitTransaction lib io ''Unstake'' w (toLowerCase w) (dir_chainId d) 650000
                 UNSTAKE_CONTRACT_ADDRESS (WithdrawToken (parseEther amount) WETH_ADDRESS)
                 (''Unstake '' @ showAmount amount @ '' eXETH for WETH Successfully, Hash: '') s2
                = (Returned (), s')"
  using assms
  by (auto simp: performUnstake_def getProvider_def encodeUint256_def action_defs Let_def
      split: option.splits sum.splits if_splits prod.splits outcome.splits)

lemma getNextNonce_returns:
  assumes "getNextNonce lib p a c s = (Returned n, s')"
  shows "s' = s\<lparr>nonceTracker := (nonceTracker s)(nonceKeyOf c a \<mapsto> n)\<rparr>"
  using assms
  by (auto simp: getNextNonce_def action_defs addLog_def isDebug_def Let_def
      split: if_splits sum.splits)

lemma getNextNonce_local:
  assumes "shouldStop s = shouldStop t"
      and "nonceTracker s (nonceKeyOf c a) = nonceTracker t (nonceKeyOf c a)"
  shows "fst (getNextNonce lib p a c s) = fst (getNextNonce lib p a c t)"
  using assms
  by (auto simp: getNextNonce_def action_defs addLog_def isDebug_def Let_def
      split: if_splits sum.splits option.splits)

lemma approveToken_reserves:
  assumes "approveToken lib aio w token spender amountWei s = (Returned (), s')"
      and "ap_allowance aio = Inr allowance" and "int allowance < amountWei"
  shows "\<exists>n. fst (getNextNonce lib (ap_pendingCount aio) w HOLESKY_CHAIN_ID s) = Returned n \<and>
             nonceTracker s' = (nonceTracker s)(nonceKeyOf HOLESKY_CHAIN_ID w \<mapsto> n) \<and>
             shouldStop s' = shouldStop s"
proof -
  obtain r s1 where n: "getNextNonce lib (ap_pendingCount aio) w HOLESKY_CHAIN_ID s = (r, s1)"
    by (cases "getNextNonce lib (ap_pendingCount aio) w HOLESKY_CHAIN_ID s")
  show ?thesis
  proof (cases r)
    case (Returned nonce)
    then have s1: "s1 = s\<lparr>nonceTracker := (nonceTracker s)(nonceKeyOf HOLESKY_CHAIN_ID w \<mapsto> nonce)\<rparr>"
      using n getNextNonce_returns by blast
    show ?thesis
      using assms n Returned s1
      by (auto simp: approveToken_def getFeeParams_pure sendTransaction_def waitForReceipt_def
            encodeUint256_def action_defs emit_def addLog_def Let_def
          split: sum.splits if_splits waitResult.splits)
  next
    case (Threw e)
    then show ?thesis
      using assms n
      by (auto simp: approveToken_def getFeeParams_pure encodeUint256_def action_defs Let_def
          split: if_splits)
  next
    case NeverSettles
    then show ?thesis
      using assms n
      by (auto simp: approveToken_def getFeeParams_pure encodeUint256_def action_defs Let_def
          split: if_splits)
  qed
qed

lemma broadcast_reserves:
  assumes "broadcast lib io label w a c request s = (Returned tx, s')"
  shows "\<exists>n. fst (getNextNonce lib (io_pendingCount io) a c s) = Returned n \<and>
             nonceTracker s' = (nonceTracker s)(nonceKeyOf c a \<mapsto> n)"
proof -
  obtain r s1 where n: "getNextNonce lib (io_pendingCount io) a c s = (r, s1)"
    by (cases "getNextNonce lib (io_pendingCount io) a c s")
  show ?thesis
  proof (cases r)
    case (Returned nonce)
    then have s1: "s1 = s\<lparr>nonceTracker := (nonceTracker s)(nonceKeyOf c a \<mapsto> nonce)\<rparr>"
      using n getNextNonce_returns by blast
    show ?thesis
      using assms n Returned s1
      by (auto simp: broadcast_def sendTransaction_def action_defs emit_def addLog_def
          split: sum.splits if_splits)
  next
    case (Threw e)
    then show ?thesis
      using assms n by (auto simp: broadcast_def action_defs split: if_splits)
  next
    case NeverSettles
    then show ?thesis
      using assms n by (auto simp: broadcast_def action_defs split: if_splits)
  qed
qed

lemma confirm_tracker: "nonceTracker (snd (confirm tx t s)) = nonceTracker s"
  by (auto simp: confirm_def raceTimeout_def action_defs addLog_def split: waitResult.splits)

lemma submitTransaction_reserves:
  assumes "submitTransaction lib io label w a c gasLimit to txData t s = (Returned (), s')"
  shows "\<exists>n. fst (getNextNonce lib (io_pendingCount io) a c s) = Returned n \<and>
             nonceTracker s' = (nonceTracker s)(nonceKeyOf c a \<mapsto> n)"
proof -
  obtain fee cost balance tx s1 where
      b: "broadcast lib io label w a c
            (\<lambda>nonce. \<lparr>tx_to = to, tx_data = txData, tx_value = 0, tx_fee = fee,
                       tx_gasLimit = gasLimit, tx_nonce = nonce\<rparr>) s = (Returned tx, s1)"
    and c: "confirm tx t s1 = (Returned (), s')"
    using assms
    by (auto simp: submitTransaction_def getFeeParams_pure estimatedGasCostOf_def action_defs
        split: sum.splits if_splits FeeParams.splits prod.splits outcome.splits)
  have "nonceTracker s' = nonceTracker s1"
    using confirm_tracker [of tx t s1] c by simp
  then show ?thesis
    using broadcast_reserves [OF b] by auto
qed

lemma nonceKeyOf_inject [simp]: "nonceKeyOf c a = nonceKeyOf c b \<longleftrightarrow> a = b"
  by (simp add: nonceKeyOf_def)

lemma approve_then_submit_reserves:
  assumes mixed: "toLowerCase w \<noteq> w"
      and a: "approveToken lib (io_approval io) w token spender amountWei (emit e s) = (Returned (), s2)"
      and b: "submitTransaction lib io label w (toLowerCase w) HOLESKY_CHAIN_ID gasLimit to txData t s2
                = (Returned (), s')"
      and low: "ap_allowance (io_approval io) = Inr allowance" "int allowance < amountWei"
  shows "\<exists>n1 n2.
           nonceTracker s' (nonceKeyOf HOLESKY_CHAIN_ID w) = Some n1 \<and>
           nonceTracker s' (nonceKeyOf HOLESKY_CHAIN_ID (toLowerCase w)) = Some n2 \<and>
           nonceKeyOf HOLESKY_CHAIN_ID w \<noteq> nonceKeyOf HOLESKY_CHAIN_ID (toLowerCase w) \<and>
           fst (getNextNonce lib (ap_pendingCount (io_approval io)) w HOLESKY_CHAIN_ID s) = Returned n1 \<and>
           fst (getNextNonce lib (io_pendingCount io) (toLowerCase w) HOLESKY_CHAIN_ID s) = Returned n2"
proof -
  let ?s1 = "emit e s"
  obtain n1 where
      n1: "fst (getNextNonce lib (ap_pendingCount (io_approval io)) w HOLESKY_CHAIN_ID ?s1) = Returned n1"
    and t2: "nonceTracker s2 = (nonceTracker ?s1)(nonceKeyOf HOLESKY_CHAIN_ID w \<mapsto> n1)"
    and stop2: "shouldStop s2 = shouldStop ?s1"
    using approveToken_reserves [OF a low] by blast
  obtain n2 where
      n2: "fst (getNextNonce lib (io_pendingCount io) (toLowerCase w) HOLESKY_CHAIN_ID s2) = Returned n2"
    and t': "nonceTracker s' = (nonceTracker s2)(nonceKeyOf HOLESKY_CHAIN_ID (toLowerCase w) \<mapsto> n2)"
    using submitTransaction_reserves [OF b] by blast
  have first: "fst (getNextNonce lib (ap_pendingCount (io_approval io)) w HOLESKY_CHAIN_ID s) = Returned n1"
    using n1 getNextNonce_local [of ?s1 s HOLESKY_CHAIN_ID w lib "ap_pendingCount (io_approval io)"]
    by (simp add: emit_def)
  have second: "fst (getNextNonce lib (io_pendingCount io) (toLowerCase w) HOLESKY_CHAIN_ID s) = Returned n2"
    using n2 getNextNonce_local [of s2 s HOLESKY_CHAIN_ID "toLowerCase w" lib "io_pendingCount io"]
      stop2 t2 mixed
    by (simp add: emit_def)
  show ?thesis
    using first second t' t2 mixed by auto
qed

text \<open>
  Claim C10. The tracker key is the chain id, an underscore and the address as given, with no
  case normalisation. Take a wallet whose address is not all lower case, the Holesky
  network, and an allowance below the amount, so that an approval is sent. After a Stake, and
  likewise after an Unstake, that returns normally the tracker holds two entries for the one
  wallet: one under the address as the wallet gives it, written by the approval, and one
  under the lower-cased address, written by the main transaction. The two keys differ, and
  each entry holds what a reservation under its key returns on the tracker as it was before
  the operation: the second reservation does not see the first.
\<close>

theorem stake_reserves_under_two_keys:
  assumes "toLowerCase w \<noteq> w"
      and "dir_chainId d = HOLESKY_CHAIN_ID"
      and "ap_allowance (io_approval io) = Inr allowance" and "int allowance < parseEther amount"
      and "performStake lib io w d amount s = (Returned (), s') \<or>
           performUnstake lib io w d amount s = (Returned (), s')"
  shows "\<exists>n1 n2.
           nonceTracker s' (nonceKeyOf HOLESKY_CHAIN_ID w) = Some n1 \<and>
           nonceTracker s' (nonceKeyOf HOLESKY_CHAIN_ID (toLowerCase w)) = Some n2 \<and>
           nonceKeyOf HOLESKY_CHAIN_ID w \<noteq> nonceKeyOf HOLESKY_CHAIN_ID (toLowerCase w) \<and>
           fst (getNextNonce lib (ap_pendingCount (io_approval io)) w HOLESKY_CHAIN_ID s) = Returned n1 \<and>
           fst (getNextNonce lib (io_pendingCount io) (toLowerCase w) HOLESKY_CHAIN_ID s) = Returned n2"
  using assms(5)
proof
  assume "performStake lib io w d amount s = (Returned (), s')"
  then obtain s2 where
      "approveToken lib (io_approval io) w WETH_ADDRESS STAKE_CONTRACT_ADDRESS
         (parseEther amount) (emit (Started Stake w (Some amount)) s) = (Returned (), s2)"
      "submitTransaction lib io ''Stake'' w (toLowerCase w) HOLESKY_CHAIN_ID 650000
         STAKE_CONTRACT_ADDRESS (DepositToken WETH_ADDRESS (parseEther amount))
         (''Stake '' @ showAmount amount @ '' WETH for eXETH Successfully, Hash: '') s2
       = (Returned (), s')"
    using performStake_success assms(2) by metis
  then show ?thesis
    using approve_then_submit_reserves [OF assms(1) _ _ assms(3,4)] by blast
next
  assume "performUnstake lib io w d amount s = (Returned (), s')"
  then obtain s2 where
      "approveToken lib (io_approval io) w EXETH_ADDRESS UNSTAKE_CONTRACT_ADDRESS
         (parseEther amount) (emit (Started Unstake w (Some amount)) s) = (Returned (), s2)"
      "submitTransaction lib io ''Unstake'' w (toLowerCase w) HOLESKY_CHAIN_ID 650000
         UNSTAKE_CONTRACT_ADDRESS (WithdrawToken (parseEther amount) WETH_ADDRESS)
         (''Unstake '' @ showAmount amount @ '' eXETH for WETH Successfully, Hash: '') s2
       = (Returned (), s')"
    using performUnstake_success assms(2) by metis
  then show ?thesis
    using approve_then_submit_reserves [OF assms(1) _ _ assms(3,4)] by blast
qed

lemma sample_stake_same_count:
  "fst (performStake sampleLib (sampleChain\<lparr>io_pendingCount := Inr 7\<rparr>) sampleWallet (hd directions)
          sampleAmount initialState) = Returned ()"
  by (simp add: eval_defs sample_defs sampleWallet_lower parseEther_def)
    (simp add: sampleWallet_def)

lemma sample_reservations:
  "fst (getNextNonce sampleLib (Inr 7) sampleWallet HOLESKY_CHAIN_ID initialState) = Returned 7"
  "fst (getNextNonce sampleLib (Inr 7) (toLowerCase sampleWallet) HOLESKY_CHAIN_ID initialState)
     = Returned 7"
  by (simp_all add: eval_defs sample_defs sampleWallet_lower) (simp_all add: sampleWallet_def)

lemma sampleWallet_mixed: "toLowerCase sampleWallet \<noteq> sampleWallet"
  by (simp add: sampleWallet_lower) (simp add: sampleWallet_def)

theorem stake_reserves_witness:
  "nonceTracker (snd (performStake sampleLib (sampleChain\<lparr>io_pendingCount := Inr 7\<rparr>) sampleWallet
                        (hd directions) sampleAmount initialState))
     (nonceKeyOf HOLESKY_CHAIN_ID sampleWallet) = Some 7 \<and>
   nonceTracker (snd (performStake sampleLib (sampleChain\<lparr>io_pendingCount := Inr 7\<rparr>) sampleWallet
                        (hd directions) sampleAmount initialState))
     (nonceKeyOf HOLESKY_CHAIN_ID (toLowerCase sampleWallet)) = Some 7 \<and>
   nonceKeyOf HOLESKY_CHAIN_ID sampleWallet \<noteq> nonceKeyOf HOLESKY_CHAIN_ID (toLowerCase sampleWallet)"
  using stake_reserves_under_two_keys [of sampleWallet "hd directions"
          "sampleChain\<lparr>io_pendingCount := Inr 7\<rparr>" 0 sampleAmount sampleLib initialState
          "snd (performStake sampleLib (sampleChain\<lparr>io_pendingCount := Inr 7\<rparr>) sampleWallet
                  (hd directions) sampleAmount initialState)"]
        fst_Returned [OF sample_stake_same_count] sample_reservations sampleWallet_mixed
        sampleAmount_wei
  by (auto simp: sampleChain_def sampleApproval_def directions_def)

end
